theory Spec2Isabelle
  imports Main "HOL-Library.Word"
begin

section \<open>The WebRTC peer of the snowflake client (client/webrtc.go)\<close>

text \<open>
  The session object \<^verbatim>\<open>WebRTCPeer\<close> is embedded as a record, each method and each
  engine callback as a function from the session state to an outcome. What lies outside
  the file (the WebRTC engine, the broker, the clock, the pipe's reader) enters as
  arguments, and what the session does to the outside is appended to the field
  \<open>calls\<close>, in program order. The byte counters of the \<^verbatim>\<open>BytesLogger\<close> and the
  log lines, but for the two of the closed callback, are left out.
\<close>

subsection \<open>Values\<close>

type_synonym byte = "8 word"
type_synonym bytes = "byte list"

text \<open>A Go \<^verbatim>\<open>error\<close> value is its message; \<open>None\<close> of \<open>error option\<close> is nil.\<close>

type_synonym error = string

text \<open>A session description (\<^verbatim>\<open>*webrtc.SessionDescription\<close>; \<open>None\<close> is the nil pointer).\<close>

type_synonym sdp = string

text \<open>Engine objects are known by a number: peer connections and data channels.\<close>

type_synonym pcref = nat
type_synonym dcref = nat

text \<open>
  \<^verbatim>\<open>BrokerChannel.Negotiate\<close> is declared outside this file; the broker is taken as a
  parameter: its reply \<open>(answer, err)\<close> to the \<open>k\<close>-th request, given the offer sent.
\<close>

type_synonym BrokerChannel = "nat \<Rightarrow> sdp option \<Rightarrow> sdp option \<times> error option"

subsection \<open>Go channels of capacity one\<close>

text \<open>
  All four channels of the session are made with capacity 1. \<open>ch_queue\<close> holds the
  buffered value, followed by the values of the senders that wait for room, in arrival
  order (a receive takes the head, and the first waiting sender moves up);
  \<open>ch_closed\<close> is set by \<^verbatim>\<open>close\<close>.
\<close>

record 'a chan =
  ch_queue :: "'a list"
  ch_closed :: bool

definition make_chan :: "'a chan" where
  "make_chan = \<lparr>ch_queue = [], ch_closed = False\<rparr>"

definition chan_capacity :: nat where
  "chan_capacity = 1"

text \<open>
  \<^verbatim>\<open>ch <- v\<close>: panics on a closed channel; with room in the buffer the sender goes on
  (\<open>Sent\<close>); on a full buffer the sender waits until a receiver has made room
  (\<open>SendWaits\<close>).
\<close>

datatype 'a send_result = Sent "'a chan" | SendWaits "'a chan" | SendPanics

definition chan_send :: "'a \<Rightarrow> 'a chan \<Rightarrow> 'a send_result" where
  "chan_send v ch =
     (if ch_closed ch then SendPanics
      else if length (ch_queue ch) < chan_capacity
      then Sent (ch\<lparr>ch_queue := ch_queue ch @ [v]\<rparr>)
      else SendWaits (ch\<lparr>ch_queue := ch_queue ch @ [v]\<rparr>))"

text \<open>
  \<^verbatim>\<open>v, ok = <-ch\<close>: the head of the queue if there is one (\<open>ok\<close> true), else the zero
  value and \<open>ok\<close> false from a closed channel (\<open>ClosedEmpty\<close>), else the receiver blocks.
\<close>

datatype 'a recv_result = Received 'a "'a chan" | ClosedEmpty | RecvBlocks

definition chan_recv :: "'a chan \<Rightarrow> 'a recv_result" where
  "chan_recv ch =
     (case ch_queue ch of
        v # rest \<Rightarrow> Received v (ch\<lparr>ch_queue := rest\<rparr>)
      | [] \<Rightarrow> if ch_closed ch then ClosedEmpty else RecvBlocks)"

text \<open>
  \<^verbatim>\<open>close(ch)\<close>: \<open>None\<close> is a panic, on a closed channel (close of closed channel) and
  when a sender waits for room (that sender panics).
\<close>

definition chan_close :: "'a chan \<Rightarrow> 'a chan option" where
  "chan_close ch =
     (if ch_closed ch \<or> chan_capacity < length (ch_queue ch) then None
      else Some (ch\<lparr>ch_closed := True\<rparr>))"

text \<open>\<^verbatim>\<open>if nil != ch { close(ch) }\<close>, as \<^verbatim>\<open>cleanup\<close> has it three times.\<close>

definition close_unless_nil :: "'a chan option \<Rightarrow> 'a chan option option" where
  "close_unless_nil chp =
     (case chp of
        None \<Rightarrow> Some None
      | Some ch \<Rightarrow> (case chan_close ch of None \<Rightarrow> None | Some ch' \<Rightarrow> Some (Some ch')))"

subsection \<open>The session\<close>

text \<open>
  Calls that leave the session, in the order they are made. Of the log lines only the two
  of the closed callback are kept (\<open>Log\<close>): they tell which way it took.
\<close>

datatype call =
    Send dcref bytes
  | DataChannelClose dcref
  | PeerConnectionClose pcref
  | PipeCloseWithError "error option"
  | Negotiate "sdp option"
  | SetRemoteDescription pcref sdp
  | Sleep nat
  | GoCheckForStaleness
  | Log string

text \<open>
  The fields of \<^verbatim>\<open>WebRTCPeer\<close> (\<open>ident\<close> is \<^verbatim>\<open>id\<close>; a pointer field is an option,
  \<open>None\<close> for nil; \<^verbatim>\<open>config\<close>, \<^verbatim>\<open>recvPipe\<close> and the \<^verbatim>\<open>BytesLogger\<close> are never
  tested by the code and are left out), and after them what the outside keeps:
  \<open>pipeErr\<close> is the error the pipe's write end was closed with and \<open>readErr\<close> the error
  its read end was closed with (\<open>None\<close> while the end is open; no function of this file
  closes the read end, the consumer that holds it may); \<open>firesOnClose\<close> says whether the
  engine runs the closed callback of a data channel before \<^verbatim>\<open>DataChannel.Close()\<close>
  returns (it may as well run it later, as an event of its own);
  \<open>localDescription\<close> is the engine's local description of the peer connection,
  \<open>requests\<close> the number of requests the broker has had, \<open>calls\<close> the calls made
  so far.
\<close>

record WebRTCPeer =
  ident :: string
  pc :: "pcref option"
  transport :: "dcref option"
  broker :: "BrokerChannel option"
  offerChannel :: "sdp option chan option"
  answerChannel :: "sdp option chan option"
  errorChannel :: "error chan option"
  writePipe :: "unit option"
  lastReceive :: int
  buffer :: bytes
  reset :: "unit chan option"
  closed :: bool
  pipeErr :: "error option"
  readErr :: "error option"
  firesOnClose :: bool
  localDescription :: "sdp option"
  requests :: nat
  calls :: "call list"

text \<open>
  \<^verbatim>\<open>NewWebRTCPeer\<close>: \<open>uid\<close> is what \<^verbatim>\<open>uniuri.New()\<close> returned. The zero time is 0.
\<close>

definition NewWebRTCPeer :: "string \<Rightarrow> BrokerChannel option \<Rightarrow> WebRTCPeer" where
  "NewWebRTCPeer uid b =
     \<lparr>ident = ''snowflake-'' @ uid,
      pc = None,
      transport = None,
      broker = b,
      offerChannel = Some make_chan,
      answerChannel = Some make_chan,
      errorChannel = Some make_chan,
      writePipe = Some (),
      lastReceive = 0,
      buffer = [],
      reset = Some make_chan,
      closed = False,
      pipeErr = None,
      readErr = None,
      firesOnClose = False,
      localDescription = None,
      requests = 0,
      calls = []\<rparr>"

subsection \<open>What a call can do\<close>

text \<open>
  A call returns a value and leaves a state; or it blocks at a channel operation, and the
  state it has reached is kept (other goroutines go on from it); or it panics, and the
  process is gone.
\<close>

datatype 'r outcome = Return 'r WebRTCPeer | Blocked WebRTCPeer | Panic string

text \<open>The rest of a function body after a call that may not return.\<close>

definition and_then :: "'a outcome \<Rightarrow> ('a \<Rightarrow> WebRTCPeer \<Rightarrow> 'b outcome) \<Rightarrow> 'b outcome" where
  "and_then r k = (case r of Return v c \<Rightarrow> k v c | Blocked c \<Rightarrow> Blocked c | Panic p \<Rightarrow> Panic p)"

subsection \<open>Write and the open callback\<close>

text \<open>\<^verbatim>\<open>Write\<close>: the pair returned is \<open>(n, err)\<close>.\<close>

definition Write :: "WebRTCPeer \<Rightarrow> bytes \<Rightarrow> (nat \<times> error option) \<times> WebRTCPeer" where
  "Write c b =
     (case transport c of
        None \<Rightarrow> ((length b, None), c\<lparr>buffer := buffer c @ b\<rparr>)
      | Some dc \<Rightarrow> ((length b, None), c\<lparr>calls := calls c @ [Send dc b]\<rparr>))"

text \<open>\<^verbatim>\<open>dc.OnOpen\<close> of the data channel \<open>dc\<close> made by \<^verbatim>\<open>establishDataChannel\<close>.\<close>

definition OnOpen :: "dcref \<Rightarrow> WebRTCPeer \<Rightarrow> unit outcome" where
  "OnOpen dc c =
     (if transport c \<noteq> None then Panic ''WebRTC: transport already exists.''
      else
        let c1 = (if 0 < length (buffer c)
                  then c\<lparr>calls := calls c @ [Send dc (buffer c)], buffer := []\<rparr>
                  else c)
        in Return () (c1\<lparr>transport := Some dc\<rparr>))"

text \<open>A run of \<^verbatim>\<open>Write\<close> calls, one after the other.\<close>

fun Writes :: "WebRTCPeer \<Rightarrow> bytes list \<Rightarrow> WebRTCPeer" where
  "Writes c [] = c"
| "Writes c (b # bs) = Writes (snd (Write c b)) bs"

text \<open>The bytes the data channel \<open>dc\<close> was given to send, in order.\<close>

fun sent_bytes :: "dcref \<Rightarrow> call list \<Rightarrow> bytes" where
  "sent_bytes dc [] = []"
| "sent_bytes dc (Send d b # cs) = (if d = dc then b @ sent_bytes dc cs else sent_bytes dc cs)"
| "sent_bytes dc (_ # cs) = sent_bytes dc cs"

subsection \<open>The pipe\<close>

text \<open>
  \<^verbatim>\<open>io.Pipe\<close> is unbuffered: a write of the callback hands its bytes to a reader while
  it runs. Closing the write end: the first error stays (nil stands for \<^verbatim>\<open>io.EOF\<close>), as
  \<^verbatim>\<open>CloseWithError\<close> is documented.
\<close>

definition EOF :: error where
  "EOF = ''EOF''"

definition ErrClosedPipe :: error where
  "ErrClosedPipe = ''io: read/write on closed pipe''"

definition CloseWithError :: "error option \<Rightarrow> WebRTCPeer \<Rightarrow> WebRTCPeer" where
  "CloseWithError err c =
     c\<lparr>pipeErr := (case pipeErr c of
                     Some e0 \<Rightarrow> Some e0
                   | None \<Rightarrow> Some (case err of None \<Rightarrow> EOF | Some e \<Rightarrow> e)),
       calls := calls c @ [PipeCloseWithError err]\<rparr>"

text \<open>
  \<^verbatim>\<open>Read\<close>, called while no write is under way: \<^verbatim>\<open>io.ErrClosedPipe\<close> when the read
  end itself is closed, else the error the write end was closed with, each with no byte,
  else the reader waits.
\<close>

definition Read :: "WebRTCPeer \<Rightarrow> (nat \<times> error option) outcome" where
  "Read c =
     (case readErr c of
        Some e \<Rightarrow> Return (0, Some ErrClosedPipe) c
      | None \<Rightarrow> (case pipeErr c of Some e \<Rightarrow> Return (0, Some e) c | None \<Rightarrow> Blocked c))"

subsection \<open>Reset, cleanup and Close\<close>

definition Reset :: "WebRTCPeer \<Rightarrow> unit outcome" where
  "Reset c =
     (case reset c of
        None \<Rightarrow> Return () c
      | Some ch \<Rightarrow>
          (case chan_send () ch of
             Sent ch' \<Rightarrow> Return () (c\<lparr>reset := Some ch'\<rparr>)
           | SendWaits ch' \<Rightarrow> Blocked (c\<lparr>reset := Some ch'\<rparr>)
           | SendPanics \<Rightarrow> Panic ''send on closed channel''))"

text \<open>\<^verbatim>\<open>WaitForReset\<close>: a receive from a nil channel blocks for ever.\<close>

definition WaitForReset :: "WebRTCPeer \<Rightarrow> unit outcome" where
  "WaitForReset c =
     (case reset c of
        None \<Rightarrow> Blocked c
      | Some ch \<Rightarrow>
          (case chan_recv ch of
             Received v ch' \<Rightarrow> Return () (c\<lparr>reset := Some ch'\<rparr>)
           | ClosedEmpty \<Rightarrow> Return () c
           | RecvBlocks \<Rightarrow> Blocked c))"

text \<open>\<^verbatim>\<open>cleanup\<close>, lines 309 to 317: the three signal channels.\<close>

definition cleanup_channels :: "WebRTCPeer \<Rightarrow> unit outcome" where
  "cleanup_channels c =
     (case close_unless_nil (offerChannel c) of
        None \<Rightarrow> Panic ''close of closed channel''
      | Some oc \<Rightarrow>
          (case close_unless_nil (answerChannel c) of
             None \<Rightarrow> Panic ''close of closed channel''
           | Some ac \<Rightarrow>
               (case close_unless_nil (errorChannel c) of
                  None \<Rightarrow> Panic ''close of closed channel''
                | Some ec \<Rightarrow>
                    Return () (c\<lparr>offerChannel := oc, answerChannel := ac,
                                 errorChannel := ec\<rparr>))))"

text \<open>Lines 318 to 322: this side of the pipe (\<^verbatim>\<open>Close()\<close> is \<^verbatim>\<open>CloseWithError(nil)\<close>).\<close>

definition cleanup_pipe :: "WebRTCPeer \<Rightarrow> WebRTCPeer" where
  "cleanup_pipe c =
     (case writePipe c of
        None \<Rightarrow> c
      | Some w \<Rightarrow> (CloseWithError None c)\<lparr>writePipe := None\<rparr>)"

text \<open>Lines 331 to 338: the peer connection (the error of its \<^verbatim>\<open>Close\<close> is only logged).\<close>

definition cleanup_pc :: "WebRTCPeer \<Rightarrow> WebRTCPeer" where
  "cleanup_pc c =
     (case pc c of
        None \<Rightarrow> c
      | Some p \<Rightarrow> c\<lparr>calls := calls c @ [PeerConnectionClose p], pc := None\<rparr>)"

text \<open>
  \<^verbatim>\<open>Close\<close>, \<^verbatim>\<open>cleanup\<close> and the closed callback \<^verbatim>\<open>dc.OnClose\<close> call one another
  through the engine, so they are defined together. The value \<open>Close\<close> returns is the
  error, always nil. \<open>cleanup_transport\<close> is lines 323 to 330 of \<^verbatim>\<open>cleanup\<close>.
  \<open>DataChannel_Close\<close> is the engine's \<^verbatim>\<open>DataChannel.Close()\<close>: the request is
  recorded, and where \<open>firesOnClose\<close> says so the closed callback runs before the request
  returns. \<open>OnClose\<close> is the callback, lines 222 to 234, with its two log lines.
\<close>

function Close :: "WebRTCPeer \<Rightarrow> error option outcome"
  and cleanup :: "WebRTCPeer \<Rightarrow> unit outcome"
  and cleanup_transport :: "WebRTCPeer \<Rightarrow> unit outcome"
  and DataChannel_Close :: "dcref \<Rightarrow> WebRTCPeer \<Rightarrow> unit outcome"
  and OnClose :: "WebRTCPeer \<Rightarrow> unit outcome"
where
  "Close c =
     (if closed c then Return None c
      else
        (case cleanup (c\<lparr>closed := True\<rparr>) of
           Return u c1 \<Rightarrow>
             (case Reset c1 of
                Return u2 c2 \<Rightarrow> Return None c2
              | Blocked c2 \<Rightarrow> Blocked c2
              | Panic p \<Rightarrow> Panic p)
         | Blocked c1 \<Rightarrow> Blocked c1
         | Panic p \<Rightarrow> Panic p))"
| "cleanup c =
     (case cleanup_channels c of
        Return u c1 \<Rightarrow>
          (case cleanup_transport (cleanup_pipe c1) of
             Return u2 c2 \<Rightarrow> Return () (cleanup_pc c2)
           | Blocked c2 \<Rightarrow> Blocked c2
           | Panic p \<Rightarrow> Panic p)
      | Blocked c1 \<Rightarrow> Blocked c1
      | Panic p \<Rightarrow> Panic p)"
| "cleanup_transport c =
     (case transport c of
        None \<Rightarrow> Return () c
      | Some dataChannel \<Rightarrow> DataChannel_Close dataChannel (c\<lparr>transport := None\<rparr>))"
| "DataChannel_Close dc c =
     (if firesOnClose c then OnClose (c\<lparr>calls := calls c @ [DataChannelClose dc]\<rparr>)
      else Return () (c\<lparr>calls := calls c @ [DataChannelClose dc]\<rparr>))"
| "OnClose c =
     (case transport c of
        None \<Rightarrow> Return () (c\<lparr>calls := calls c @ [Log ''WebRTC: DataChannel.OnClose [locally]'']\<rparr>)
      | Some dc \<Rightarrow>
          (case Close (c\<lparr>calls := calls c @ [Log ''WebRTC: DataChannel.OnClose [remotely]''],
                         transport := None\<rparr>) of
             Return e c1 \<Rightarrow> Return () c1
           | Blocked c1 \<Rightarrow> Blocked c1
           | Panic p \<Rightarrow> Panic p))"
  by pat_completeness auto

termination
proof (relation "measure (\<lambda>x.
    case x of
      Inl y \<Rightarrow> (case y of
                 Inl c \<Rightarrow> (if transport c = None then 0 else 5) + 3
               | Inr c \<Rightarrow> (if transport c = None then 0 else 5) + 2)
    | Inr y \<Rightarrow> (case y of
                 Inl c \<Rightarrow> (if transport c = None then 0 else 5) + 1
               | Inr z \<Rightarrow> (case z of
                            Inl dcc \<Rightarrow> (if transport (snd dcc) = None then 0 else 5) + 1
                          | Inr c \<Rightarrow> (if transport c = None then 0 else 5))))")
  show "\<And>c x11 x12. cleanup_channels c = Return x11 x12 \<Longrightarrow>
       (Inr (Inl (cleanup_pipe x12)), Inl (Inr c)) \<in> measure (\<lambda>x.
    case x of
      Inl y \<Rightarrow> (case y of
                 Inl c \<Rightarrow> (if transport c = None then 0 else 5) + 3
               | Inr c \<Rightarrow> (if transport c = None then 0 else 5) + 2)
    | Inr y \<Rightarrow> (case y of
                 Inl c \<Rightarrow> (if transport c = None then 0 else 5) + 1
               | Inr z \<Rightarrow> (case z of
                            Inl dcc \<Rightarrow> (if transport (snd dcc) = None then 0 else 5) + 1
                          | Inr c \<Rightarrow> (if transport c = None then 0 else 5))))"
    by (auto simp: cleanup_channels_def cleanup_pipe_def CloseWithError_def split: option.splits)
qed auto

declare Close.simps [simp del] cleanup.simps [simp del] cleanup_transport.simps [simp del]
  DataChannel_Close.simps [simp del] OnClose.simps [simp del]

subsection \<open>The callbacks of the data channel\<close>

text \<open>The open callback stands with \<open>Write\<close>, the closed callback with \<open>Close\<close>.\<close>

text \<open>
  \<^verbatim>\<open>dc.OnMessage\<close>: \<open>(n, err)\<close> is what \<^verbatim>\<open>c.writePipe.Write(msg)\<close> returned (it depends
  on the pipe's reader), \<open>now\<close> the clock. A method call on the nil \<^verbatim>\<open>c.writePipe\<close>
  panics.
\<close>

definition OnMessage :: "bytes \<Rightarrow> nat \<times> error option \<Rightarrow> int \<Rightarrow> WebRTCPeer \<Rightarrow> unit outcome" where
  "OnMessage msg wr now c =
     (case writePipe c of
        None \<Rightarrow> Panic ''invalid memory address or nil pointer dereference''
      | Some w \<Rightarrow>
          let c1 = (case snd wr of None \<Rightarrow> c | Some err \<Rightarrow> CloseWithError (Some err) c)
          in if fst wr \<noteq> length msg then Panic ''short write''
             else Return () (c1\<lparr>lastReceive := now\<rparr>))"

text \<open>\<^verbatim>\<open>pc.OnDataChannel\<close>: the remote peer offers a data channel.\<close>

definition OnDataChannel :: "WebRTCPeer \<Rightarrow> unit outcome" where
  "OnDataChannel c = Panic ''Unexpected OnDataChannel!''"

subsection \<open>Preparing the peer connection and the data channel\<close>

text \<open>
  What the code is given from outside during \<^verbatim>\<open>Connect\<close>: the results of the engine's
  operations, the callbacks the engine fires once the data channel is requested (they run
  while \<^verbatim>\<open>exchangeSDP\<close> waits in its \<^verbatim>\<open>select\<close>), the choice of \<^verbatim>\<open>select\<close> when both
  channels are ready, and the constant \<^verbatim>\<open>ReconnectTimeout\<close>, declared outside this file.
\<close>

datatype callback =
    NegotiationNeeded "error + sdp" "error option"
  | IceComplete

record world =
  newPeerConnection :: "error + pcref"
  createDataChannel :: "error + dcref"
  callbacks :: "callback list"
  selectErrorFirst :: bool
  setRemoteDescription :: "sdp \<Rightarrow> error option"
  ReconnectTimeout :: nat

text \<open>\<^verbatim>\<open>preparePeerConnection\<close>: \<open>npc\<close> is what \<^verbatim>\<open>webrtc.NewPeerConnection\<close> returned.\<close>

definition preparePeerConnection :: "error + pcref \<Rightarrow> WebRTCPeer \<Rightarrow> error option outcome" where
  "preparePeerConnection npc c =
     (let c1 = (case pc c of
                  None \<Rightarrow> c
                | Some p \<Rightarrow> c\<lparr>calls := calls c @ [PeerConnectionClose p], pc := None\<rparr>)
      in (case npc of
            Inl err \<Rightarrow> Return (Some err) c1
          | Inr p \<Rightarrow> Return None (c1\<lparr>pc := Some p\<rparr>)))"

text \<open>
  \<^verbatim>\<open>establishDataChannel\<close>: \<open>cdc\<close> is what \<^verbatim>\<open>c.pc.CreateDataChannel\<close> returned; the
  method dereferences \<^verbatim>\<open>c.pc\<close>. The three callbacks it installs are \<open>OnOpen\<close>,
  \<open>OnClose\<close> and \<open>OnMessage\<close>.
\<close>

definition establishDataChannel :: "error + dcref \<Rightarrow> WebRTCPeer \<Rightarrow> error option outcome" where
  "establishDataChannel cdc c =
     (if transport c \<noteq> None then Panic ''Unexpected datachannel already exists!''
      else case pc c of
             None \<Rightarrow> Panic ''invalid memory address or nil pointer dereference''
           | Some p \<Rightarrow> (case cdc of Inl err \<Rightarrow> Return (Some err) c | Inr dc \<Rightarrow> Return None c))"

text \<open>
  A \<^verbatim>\<open>go\<close> statement: the starter goes on whether or not the goroutine has come to its
  end; a panic of the goroutine ends the process.
\<close>

definition go :: "unit outcome \<Rightarrow> unit outcome" where
  "go r = (case r of Return v c \<Rightarrow> Return () c | Blocked c \<Rightarrow> Return () c | Panic p \<Rightarrow> Panic p)"

text \<open>\<^verbatim>\<open>c.errorChannel <- err\<close> (a send to a nil channel blocks for ever).\<close>

definition send_error :: "error \<Rightarrow> WebRTCPeer \<Rightarrow> unit outcome" where
  "send_error err c =
     (case errorChannel c of
        None \<Rightarrow> Blocked c
      | Some ch \<Rightarrow>
          (case chan_send err ch of
             Sent ch' \<Rightarrow> Return () (c\<lparr>errorChannel := Some ch'\<rparr>)
           | SendWaits ch' \<Rightarrow> Blocked (c\<lparr>errorChannel := Some ch'\<rparr>)
           | SendPanics \<Rightarrow> Panic ''send on closed channel''))"

text \<open>
  \<^verbatim>\<open>pc.OnNegotiationNeeded\<close>: \<open>co\<close> is what \<^verbatim>\<open>pc.CreateOffer()\<close> returned, \<open>sl\<close> what
  \<^verbatim>\<open>pc.SetLocalDescription(offer)\<close> returned; when it succeeds the engine holds the offer
  as its local description.
\<close>

definition OnNegotiationNeeded :: "error + sdp \<Rightarrow> error option \<Rightarrow> WebRTCPeer \<Rightarrow> unit outcome" where
  "OnNegotiationNeeded co sl c =
     go (case co of
           Inl err \<Rightarrow> send_error err c
         | Inr offer \<Rightarrow>
             (case sl of
                Some err \<Rightarrow> send_error err c
              | None \<Rightarrow> Return () (c\<lparr>localDescription := Some offer\<rparr>)))"

text \<open>\<^verbatim>\<open>pc.OnIceComplete\<close>: \<^verbatim>\<open>c.offerChannel <- pc.LocalDescription()\<close>.\<close>

definition OnIceComplete :: "WebRTCPeer \<Rightarrow> unit outcome" where
  "OnIceComplete c =
     (case offerChannel c of
        None \<Rightarrow> Blocked c
      | Some ch \<Rightarrow>
          (case chan_send (localDescription c) ch of
             Sent ch' \<Rightarrow> Return () (c\<lparr>offerChannel := Some ch'\<rparr>)
           | SendWaits ch' \<Rightarrow> Blocked (c\<lparr>offerChannel := Some ch'\<rparr>)
           | SendPanics \<Rightarrow> Panic ''send on closed channel''))"

text \<open>
  The engine delivers its callbacks from one thread, one after the other: a callback
  that blocks holds the later ones back.
\<close>

fun deliver :: "callback list \<Rightarrow> WebRTCPeer \<Rightarrow> unit outcome" where
  "deliver [] c = Return () c"
| "deliver (NegotiationNeeded co sl # cbs) c =
     and_then (OnNegotiationNeeded co sl c) (\<lambda>_ c1. deliver cbs c1)"
| "deliver (IceComplete # cbs) c =
     and_then (OnIceComplete c) (\<lambda>_ c1. deliver cbs c1)"

subsection \<open>The exchange with the broker\<close>

text \<open>The test \<^verbatim>\<open>nil != err || nil == answer\<close> on a reply \<open>(answer, err)\<close> of the broker.\<close>

definition no_answer :: "sdp option \<times> error option \<Rightarrow> bool" where
  "no_answer reply = (snd reply \<noteq> None \<or> fst reply = None)"

text \<open>
  \<^verbatim>\<open>sendOfferToBroker\<close>: the broker's reply to its next request decides. The method
  \<^verbatim>\<open>LocalDescription\<close> dereferences \<^verbatim>\<open>c.pc\<close>.
\<close>

definition sendOfferToBroker :: "WebRTCPeer \<Rightarrow> unit outcome" where
  "sendOfferToBroker c =
     (case broker c of
        None \<Rightarrow> Return () c
      | Some b \<Rightarrow>
          (case pc c of
             None \<Rightarrow> Panic ''invalid memory address or nil pointer dereference''
           | Some p \<Rightarrow>
               let offer = localDescription c;
                   reply = b (requests c) offer;
                   answer = (if no_answer reply then None else fst reply);
                   c1 = c\<lparr>requests := Suc (requests c), calls := calls c @ [Negotiate offer]\<rparr>
               in (case answerChannel c1 of
                     None \<Rightarrow> Blocked c1
                   | Some ch \<Rightarrow>
                       (case chan_send answer ch of
                          Sent ch' \<Rightarrow> Return () (c1\<lparr>answerChannel := Some ch'\<rparr>)
                        | SendWaits ch' \<Rightarrow> Blocked (c1\<lparr>answerChannel := Some ch'\<rparr>)
                        | SendPanics \<Rightarrow> Panic ''send on closed channel''))))"

text \<open>
  The loop of \<^verbatim>\<open>exchangeSDP\<close>, lines 289 to 297; \<open>rt\<close> is \<^verbatim>\<open>ReconnectTimeout\<close>. The
  value is \<open>None\<close> when the loop runs for ever.
\<close>

partial_function (option) answer_loop :: "nat \<Rightarrow> WebRTCPeer \<Rightarrow> sdp outcome option" where
  "answer_loop rt c =
     (case go (sendOfferToBroker c) of
        Panic p \<Rightarrow> Some (Panic p)
      | Blocked c1 \<Rightarrow> Some (Blocked c1)
      | Return u c1 \<Rightarrow>
          (case answerChannel c1 of
             None \<Rightarrow> Some (Blocked c1)
           | Some ch \<Rightarrow>
               (case chan_recv ch of
                  RecvBlocks \<Rightarrow> Some (Blocked c1)
                | ClosedEmpty \<Rightarrow> answer_loop rt (c1\<lparr>calls := calls c1 @ [Sleep rt]\<rparr>)
                | Received v ch' \<Rightarrow>
                    (case v of
                       None \<Rightarrow>
                         answer_loop rt
                           (c1\<lparr>answerChannel := Some ch', calls := calls c1 @ [Sleep rt]\<rparr>)
                     | Some answer \<Rightarrow> Some (Return answer (c1\<lparr>answerChannel := Some ch'\<rparr>))))))"

declare answer_loop.simps [code]

text \<open>The calls of \<open>k\<close> rounds of the loop that got no answer: a request, then the wait.\<close>

fun retries :: "nat \<Rightarrow> sdp option \<Rightarrow> nat \<Rightarrow> call list" where
  "retries 0 offer rt = []"
| "retries (Suc k) offer rt = [Negotiate offer, Sleep rt] @ retries k offer rt"

text \<open>
  The \<^verbatim>\<open>select\<close> of \<^verbatim>\<open>exchangeSDP\<close>, lines 272 to 285. A channel is ready when a value
  is queued or it is closed; when both are ready the outside chooses.
\<close>

definition ready :: "'a chan option \<Rightarrow> bool" where
  "ready chp = (case chp of None \<Rightarrow> False | Some ch \<Rightarrow> ch_queue ch \<noteq> [] \<or> ch_closed ch)"

datatype selected = Offer | Failed "error option"

definition receive_offer :: "WebRTCPeer \<Rightarrow> selected outcome" where
  "receive_offer c =
     (case offerChannel c of
        None \<Rightarrow> Blocked c
      | Some ch \<Rightarrow>
          (case chan_recv ch of
             Received offer ch' \<Rightarrow> Return Offer (c\<lparr>offerChannel := Some ch'\<rparr>)
           | ClosedEmpty \<Rightarrow> Return Offer c
           | RecvBlocks \<Rightarrow> Blocked c))"

definition receive_error :: "WebRTCPeer \<Rightarrow> selected outcome" where
  "receive_error c =
     (case errorChannel c of
        None \<Rightarrow> Blocked c
      | Some ch \<Rightarrow>
          (case chan_recv ch of
             Received err ch' \<Rightarrow>
               and_then (Close (c\<lparr>errorChannel := Some ch'\<rparr>)) (\<lambda>_ c1. Return (Failed (Some err)) c1)
           | ClosedEmpty \<Rightarrow> and_then (Close c) (\<lambda>_ c1. Return (Failed None) c1)
           | RecvBlocks \<Rightarrow> Blocked c))"

definition exchangeSDP_select :: "bool \<Rightarrow> WebRTCPeer \<Rightarrow> selected outcome" where
  "exchangeSDP_select errorFirst c =
     (if ready (offerChannel c) \<and> \<not> (ready (errorChannel c) \<and> errorFirst) then receive_offer c
      else if ready (errorChannel c) then receive_error c
      else Blocked c)"

text \<open>Lines 298 to 304: the answer is applied (the method dereferences \<^verbatim>\<open>c.pc\<close>).\<close>

definition apply_answer :: "(sdp \<Rightarrow> error option) \<Rightarrow> sdp \<Rightarrow> WebRTCPeer \<Rightarrow> error option outcome" where
  "apply_answer srd answer c =
     (case pc c of
        None \<Rightarrow> Panic ''invalid memory address or nil pointer dereference''
      | Some p \<Rightarrow> Return (srd answer) (c\<lparr>calls := calls c @ [SetRemoteDescription p answer]\<rparr>))"

definition exchangeSDP :: "world \<Rightarrow> WebRTCPeer \<Rightarrow> error option outcome option" where
  "exchangeSDP w c =
     (case exchangeSDP_select (selectErrorFirst w) c of
        Panic p \<Rightarrow> Some (Panic p)
      | Blocked c1 \<Rightarrow> Some (Blocked c1)
      | Return (Failed err) c1 \<Rightarrow> Some (Return err c1)
      | Return Offer c1 \<Rightarrow>
          (case answer_loop (ReconnectTimeout w) c1 of
             None \<Rightarrow> None
           | Some r \<Rightarrow> Some (and_then r (apply_answer (setRemoteDescription w)))))"

subsection \<open>Connect\<close>

text \<open>
  \<^verbatim>\<open>Connect\<close>. The callbacks of the world are delivered by the engine's thread once the
  data channel is requested; \<^verbatim>\<open>go c.checkForStaleness()\<close> is recorded as a call.
\<close>

definition Connect :: "world \<Rightarrow> WebRTCPeer \<Rightarrow> error option outcome option" where
  "Connect w c =
     (case preparePeerConnection (newPeerConnection w) c of
        Panic p \<Rightarrow> Some (Panic p)
      | Blocked c1 \<Rightarrow> Some (Blocked c1)
      | Return (Some err) c1 \<Rightarrow> Some (Return (Some err) c1)
      | Return None c1 \<Rightarrow>
          (case establishDataChannel (createDataChannel w) c1 of
             Panic p \<Rightarrow> Some (Panic p)
           | Blocked c2 \<Rightarrow> Some (Blocked c2)
           | Return (Some err) c2 \<Rightarrow>
               Some (Return (Some ''WebRTC: Could not establish DataChannel.'') c2)
           | Return None c2 \<Rightarrow>
               (case go (deliver (callbacks w) c2) of
                  Panic p \<Rightarrow> Some (Panic p)
                | Blocked c3 \<Rightarrow> Some (Blocked c3)
                | Return u c3 \<Rightarrow>
                    (case exchangeSDP w c3 of
                       None \<Rightarrow> None
                     | Some (Return None c4) \<Rightarrow>
                         Some (Return None (c4\<lparr>calls := calls c4 @ [GoCheckForStaleness]\<rparr>))
                     | Some r \<Rightarrow> Some r))))"

subsection \<open>The watchdog\<close>


definition stale :: "int \<Rightarrow> int \<Rightarrow> WebRTCPeer \<Rightarrow> bool" where
  "stale T now c = (now - lastReceive c > T * 1000000000)"



subsection \<open>Everything that can happen to a session\<close>

datatype event =
    EvWrite bytes
  | EvRead
  | EvClose
  | EvReset
  | EvWaitForReset
  | EvConnect world
  | EvOnOpen dcref
  | EvOnClose
  | EvOnMessage bytes "nat \<times> error option" int
  | EvOnDataChannel
  | EvOnNegotiationNeeded "error + sdp" "error option"
  | EvOnIceComplete
  | EvWatchdogStart int
  | EvWatchdogRound int int

text \<open>The state a call leaves, if the process is still there.\<close>

fun state_after :: "'a outcome \<Rightarrow> WebRTCPeer option" where
  "state_after (Return v c) = Some c"
| "state_after (Blocked c) = Some c"
| "state_after (Panic p) = None"

text \<open>
  One event; \<open>None\<close> when the process has panicked or the call runs for ever.
\<close>

fun step :: "event \<Rightarrow> WebRTCPeer \<Rightarrow> WebRTCPeer option" where
  "step (EvWrite b) c = Some (snd (Write c b))"
| "step EvRead c = state_after (Read c)"
| "step EvClose c = state_after (Close c)"
| "step EvReset c = state_after (Reset c)"
| "step EvWaitForReset c = state_after (WaitForReset c)"
| "step (EvConnect w) c = (case Connect w c of None \<Rightarrow> None | Some r \<Rightarrow> state_after r)"
| "step (EvOnOpen dc) c = state_after (OnOpen dc c)"
| "step EvOnClose c = state_after (OnClose c)"
| "step (EvOnMessage msg wr now) c = state_after (OnMessage msg wr now c)"
| "step EvOnDataChannel c = state_after (OnDataChannel c)"
| "step (EvOnNegotiationNeeded co sl) c = state_after (OnNegotiationNeeded co sl c)"
| "step EvOnIceComplete c = state_after (OnIceComplete c)"
| "step (EvWatchdogStart t0) c = Some (c\<lparr>lastReceive := t0\<rparr>)"
| "step (EvWatchdogRound T now) c =
     (if closed c then Some c
      else if stale T now c then state_after (Close c)
      else Some c)"

fun run :: "event list \<Rightarrow> WebRTCPeer \<Rightarrow> WebRTCPeer option" where
  "run [] c = Some c"
| "run (e # es) c = (case step e c of None \<Rightarrow> None | Some c1 \<Rightarrow> run es c1)"

text \<open>\<^verbatim>\<open>Close\<close> called \<open>n + 1\<close> times by one caller, each call after the one before has returned.\<close>

fun Close_again :: "nat \<Rightarrow> WebRTCPeer \<Rightarrow> error option outcome" where
  "Close_again 0 c = Close c"
| "Close_again (Suc n) c = and_then (Close c) (\<lambda>_ c1. Close_again n c1)"

text \<open>How often the engine was asked to close a peer connection.\<close>

definition pc_closes :: "call list \<Rightarrow> nat" where
  "pc_closes cs = length (filter (\<lambda>x. case x of PeerConnectionClose p \<Rightarrow> True | _ \<Rightarrow> False) cs)"

subsection \<open>Sessions to try the theorems on\<close>

text \<open>A session as \<^verbatim>\<open>NewWebRTCPeer\<close> makes it, without a broker, and what \<^verbatim>\<open>Close\<close> leaves of it.\<close>

definition peer0 :: WebRTCPeer where
  "peer0 = NewWebRTCPeer ''a'' None"

definition peer0_closed :: WebRTCPeer where
  "peer0_closed =
     peer0\<lparr>offerChannel := Some \<lparr>ch_queue = [], ch_closed = True\<rparr>,
           answerChannel := Some \<lparr>ch_queue = [], ch_closed = True\<rparr>,
           errorChannel := Some \<lparr>ch_queue = [], ch_closed = True\<rparr>,
           writePipe := None,
           reset := Some \<lparr>ch_queue = [()], ch_closed = False\<rparr>,
           closed := True,
           pipeErr := Some EOF,
           calls := [PipeCloseWithError None]\<rparr>"

text \<open>A session with a peer connection and an open data channel, and what \<^verbatim>\<open>Close\<close> leaves of it.\<close>

definition peer1 :: WebRTCPeer where
  "peer1 = peer0\<lparr>pc := Some 1, transport := Some 2\<rparr>"

definition peer1_closed :: WebRTCPeer where
  "peer1_closed =
     peer0_closed\<lparr>calls := [PipeCloseWithError None, DataChannelClose 2, PeerConnectionClose 1]\<rparr>"

text \<open>
  A broker that fails twice and then answers; a session with it; an engine that makes the
  offer \<^verbatim>\<open>offer\<close> and gathers its candidates, and turns every answer down.
\<close>

definition broker1 :: BrokerChannel where
  "broker1 = (\<lambda>k offer. if k < 2 then (None, Some ''timeout'') else (Some ''answer'', None))"

definition peer2 :: WebRTCPeer where
  "peer2 = NewWebRTCPeer ''a'' (Some broker1)"

definition world1 :: world where
  "world1 =
     \<lparr>newPeerConnection = Inr 1,
      createDataChannel = Inr 2,
      callbacks = [NegotiationNeeded (Inr ''offer'') None, IceComplete],
      selectErrorFirst = False,
      setRemoteDescription = (\<lambda>answer. Some ''bad answer''),
      ReconnectTimeout = 10\<rparr>"

text \<open>What \<^verbatim>\<open>Connect\<close> leaves of \<open>peer2\<close> in \<open>world1\<close>.\<close>

definition peer2_turned_down :: WebRTCPeer where
  "peer2_turned_down =
     peer2\<lparr>pc := Some 1,
           localDescription := Some ''offer'',
           requests := 3,
           calls := [Negotiate (Some ''offer''), Sleep 10, Negotiate (Some ''offer''), Sleep 10,
                     Negotiate (Some ''offer''), SetRemoteDescription 1 ''answer'']\<rparr>"


section \<open>Theorems\<close>

subsection \<open>Helper facts\<close>

lemma and_then_Return [simp]: "and_then (Return v c) k = k v c"
  and and_then_Blocked [simp]: "and_then (Blocked c) k = Blocked c"
  and and_then_Panic [simp]: "and_then (Panic p) k = Panic p"
  by (simp_all add: and_then_def)

lemma OnClose_unfold:
  "OnClose c =
     (case transport c of
        None \<Rightarrow> Return () (c\<lparr>calls := calls c @ [Log ''WebRTC: DataChannel.OnClose [locally]'']\<rparr>)
      | Some dc \<Rightarrow>
          and_then (Close (c\<lparr>calls := calls c @ [Log ''WebRTC: DataChannel.OnClose [remotely]''],
                             transport := None\<rparr>)) (\<lambda>_ c1. Return () c1))"
  by (subst OnClose.simps) (simp add: and_then_def split: option.splits outcome.splits)

lemma cleanup_transport_unfold:
  "cleanup_transport c =
     Return () (case transport c of
        None \<Rightarrow> c
      | Some dc \<Rightarrow>
          c\<lparr>transport := None,
            calls := calls c @ DataChannelClose dc #
              (if firesOnClose c then [Log ''WebRTC: DataChannel.OnClose [locally]''] else [])\<rparr>)"
  by (simp add: cleanup_transport.simps DataChannel_Close.simps OnClose.simps split: option.splits)

lemma cleanup_unfold:
  "cleanup c =
     and_then (cleanup_channels c)
       (\<lambda>_ c1. and_then (cleanup_transport (cleanup_pipe c1)) (\<lambda>_ c2. Return () (cleanup_pc c2)))"
  by (subst cleanup.simps) (simp add: and_then_def split: outcome.splits)

lemma Close_unfold:
  "Close c =
     (if closed c then Return None c
      else
        and_then (cleanup (c\<lparr>closed := True\<rparr>))
          (\<lambda>_ c1. and_then (Reset c1) (\<lambda>_ c2. Return None c2)))"
  by (subst Close.simps) (simp add: and_then_def split: outcome.splits)

lemma sent_bytes_append: "sent_bytes dc (xs @ ys) = sent_bytes dc xs @ sent_bytes dc ys"
  by (induction dc xs rule: sent_bytes.induct) auto

lemma Writes_absent:
  "transport c = None \<Longrightarrow>
   Writes c ws = c\<lparr>buffer := buffer c @ concat ws\<rparr>"
  by (induction ws arbitrary: c) (auto simp: Write_def)

lemma Writes_present:
  "transport c = Some dc \<Longrightarrow>
   Writes c ws = c\<lparr>calls := calls c @ map (Send dc) ws\<rparr>"
  by (induction ws arbitrary: c) (auto simp: Write_def)

lemma sent_bytes_Sends: "sent_bytes dc (map (Send dc) ws) = concat ws"
  by (induction ws) auto

lemma OnOpen_absent:
  "transport c = None \<Longrightarrow>
   OnOpen dc c =
     Return () (c\<lparr>calls := calls c @ (if buffer c = [] then [] else [Send dc (buffer c)]),
                  buffer := [], transport := Some dc\<rparr>)"
  by (simp add: OnOpen_def)

lemma Close_leaves_closed_no_transport:
  "\<not> closed c0 \<Longrightarrow> state_after (Close c0) = Some c \<Longrightarrow> closed c \<and> transport c = None"
  by (auto simp: Close_unfold cleanup_unfold cleanup_channels_def cleanup_pipe_def
      cleanup_transport_unfold cleanup_pc_def CloseWithError_def
      Reset_def and_then_def
      split: option.splits send_result.splits)

lemma Close_peer0: "Close peer0 = Return None peer0_closed"
  by (simp add: Close_unfold cleanup_unfold cleanup_channels_def cleanup_pipe_def
      cleanup_transport_unfold cleanup_pc_def CloseWithError_def
      Reset_def and_then_def NewWebRTCPeer_def make_chan_def close_unless_nil_def
      chan_close_def chan_send_def chan_capacity_def peer0_def peer0_closed_def)

lemma Close_peer1: "Close peer1 = Return None peer1_closed"
  by (simp add: Close_unfold cleanup_unfold cleanup_channels_def cleanup_pipe_def
      cleanup_transport_unfold cleanup_pc_def CloseWithError_def
      Reset_def and_then_def NewWebRTCPeer_def make_chan_def close_unless_nil_def
      chan_close_def chan_send_def chan_capacity_def peer0_def peer0_closed_def peer1_def peer1_closed_def)

lemma state_after_and_then:
  "state_after (and_then r k) = Some c' \<Longrightarrow>
   (\<And>c1. r = Blocked c1 \<Longrightarrow> c' = c1 \<Longrightarrow> Q) \<Longrightarrow>
   (\<And>v c1. r = Return v c1 \<Longrightarrow> state_after (k v c1) = Some c' \<Longrightarrow> Q) \<Longrightarrow> Q"
  by (cases r) auto

lemma Close_closed_noop: "closed c \<Longrightarrow> Close c = Return None c"
  by (simp add: Close_unfold)

lemma Close_result:
  "Close c = Return r c1 \<Longrightarrow> r = None \<and> closed c1"
  by (auto simp: Close_unfold cleanup_unfold cleanup_channels_def cleanup_pipe_def
      cleanup_transport_unfold cleanup_pc_def CloseWithError_def
      Reset_def and_then_def
      split: option.splits send_result.splits if_splits)

lemma Close_blocked:
  "Close c = Blocked c1 \<Longrightarrow> closed c1"
  by (auto simp: Close_unfold cleanup_unfold cleanup_channels_def cleanup_pipe_def
      cleanup_transport_unfold cleanup_pc_def CloseWithError_def
      Reset_def and_then_def
      split: option.splits send_result.splits if_splits)

lemma Close_again_eq: "Close_again n c = Close c"
proof (induction n arbitrary: c)
  case 0
  show ?case by simp
next
  case (Suc n)
  show ?case
  proof (cases "Close c")
    case (Return r c1)
    then have "closed c1" by (simp add: Close_result)
    then have "Close c1 = Return None c1" by (rule Close_closed_noop)
    moreover have "r = None" using Return by (simp add: Close_result)
    ultimately show ?thesis using Return Suc by simp
  qed simp_all
qed

lemma cleanup_calls:
  "cleanup c = Return u c1 \<Longrightarrow>
   calls c1 = calls c
      @ (case writePipe c of None \<Rightarrow> [] | Some w \<Rightarrow> [PipeCloseWithError None])
      @ (case transport c of
           None \<Rightarrow> []
         | Some dc \<Rightarrow> DataChannelClose dc #
             (if firesOnClose c then [Log ''WebRTC: DataChannel.OnClose [locally]''] else []))
      @ (case pc c of None \<Rightarrow> [] | Some p \<Rightarrow> [PeerConnectionClose p])
   \<and> transport c1 = None \<and> pc c1 = None \<and> writePipe c1 = None \<and> closed c1 = closed c
   \<and> reset c1 = reset c"
  by (auto simp: cleanup_unfold cleanup_channels_def cleanup_pipe_def
      cleanup_transport_unfold cleanup_pc_def CloseWithError_def
      and_then_def
      split: option.splits)

lemma Reset_calls: "state_after (Reset c) = Some c1 \<Longrightarrow> calls c1 = calls c \<and> closed c1 = closed c
   \<and> transport c1 = transport c \<and> pc c1 = pc c"
  by (auto simp: Reset_def split: option.splits send_result.splits)

lemma Close_calls:
  "\<not> closed c \<Longrightarrow> state_after (Close c) = Some c1 \<Longrightarrow>
   calls c1 = calls c
      @ (case writePipe c of None \<Rightarrow> [] | Some w \<Rightarrow> [PipeCloseWithError None])
      @ (case transport c of
           None \<Rightarrow> []
         | Some dc \<Rightarrow> DataChannelClose dc #
             (if firesOnClose c then [Log ''WebRTC: DataChannel.OnClose [locally]''] else []))
      @ (case pc c of None \<Rightarrow> [] | Some p \<Rightarrow> [PeerConnectionClose p])
   \<and> transport c1 = None \<and> pc c1 = None \<and> writePipe c1 = None \<and> closed c1"
  by (auto simp: Close_unfold cleanup_unfold cleanup_channels_def cleanup_pipe_def
      cleanup_transport_unfold cleanup_pc_def CloseWithError_def
      Reset_def and_then_def
      split: option.splits send_result.splits)

lemma pc_closes_append [simp]: "pc_closes (xs @ ys) = pc_closes xs + pc_closes ys"
  by (simp add: pc_closes_def)

lemma pc_closes_simps [simp]:
  "pc_closes [] = 0"
  "pc_closes (PeerConnectionClose p # xs) = Suc (pc_closes xs)"
  "pc_closes (DataChannelClose d # xs) = pc_closes xs"
  "pc_closes (PipeCloseWithError e # xs) = pc_closes xs"
  "pc_closes (Log l # xs) = pc_closes xs"
  by (simp_all add: pc_closes_def)

lemma Close_pc_closes:
  assumes "state_after (Close c) = Some c1"
  shows "pc_closes (calls c1) = pc_closes (calls c) + (if closed c \<or> pc c = None then 0 else 1)"
proof (cases "closed c")
  case True
  then show ?thesis using assms by (simp add: Close_closed_noop)
next
  case False
  from Close_calls [OF False assms] show ?thesis
    using False by (auto split: option.splits)
qed

lemma closed_kept_Close: "closed c \<Longrightarrow> state_after (Close c) = Some c' \<Longrightarrow> closed c'"
  by (simp add: Close_closed_noop)

lemma closed_kept_Reset: "closed c \<Longrightarrow> state_after (Reset c) = Some c' \<Longrightarrow> closed c'"
  by (auto simp: Reset_def split: option.splits send_result.splits)

lemma closed_kept_WaitForReset: "closed c \<Longrightarrow> state_after (WaitForReset c) = Some c' \<Longrightarrow> closed c'"
  by (auto simp: WaitForReset_def split: option.splits recv_result.splits)

lemma closed_kept_Read: "closed c \<Longrightarrow> state_after (Read c) = Some c' \<Longrightarrow> closed c'"
  by (auto simp: Read_def split: option.splits)

lemma closed_kept_OnOpen: "closed c \<Longrightarrow> state_after (OnOpen dc c) = Some c' \<Longrightarrow> closed c'"
  by (auto simp: OnOpen_def split: if_splits)

lemma closed_kept_OnClose: "closed c \<Longrightarrow> state_after (OnClose c) = Some c' \<Longrightarrow> closed c'"
  by (auto simp: OnClose_unfold Close_unfold split: option.splits)

lemma closed_kept_OnMessage: "closed c \<Longrightarrow> state_after (OnMessage msg wr now c) = Some c' \<Longrightarrow> closed c'"
  by (auto simp: OnMessage_def CloseWithError_def Let_def split: option.splits if_splits)

lemma closed_kept_send_error: "closed c \<Longrightarrow> state_after (send_error e c) = Some c' \<Longrightarrow> closed c'"
  by (auto simp: send_error_def split: option.splits send_result.splits)

lemma state_after_go: "state_after (go r) = state_after r"
  by (cases r) (simp_all add: go_def)

lemma closed_kept_OnNegotiationNeeded:
  "closed c \<Longrightarrow> state_after (OnNegotiationNeeded co sl c) = Some c' \<Longrightarrow> closed c'"
  by (auto simp: OnNegotiationNeeded_def state_after_go dest: closed_kept_send_error split: sum.splits option.splits)

lemma closed_kept_OnIceComplete: "closed c \<Longrightarrow> state_after (OnIceComplete c) = Some c' \<Longrightarrow> closed c'"
  by (auto simp: OnIceComplete_def split: option.splits send_result.splits)

lemma closed_kept_deliver: "closed c \<Longrightarrow> state_after (deliver cbs c) = Some c' \<Longrightarrow> closed c'"
proof (induction cbs c rule: deliver.induct)
  case (1 c)
  then show ?case by simp
next
  case (2 co sl cbs c)
  show ?case
  proof (cases "OnNegotiationNeeded co sl c")
    case (Return u c1)
    then have "closed c1" by (intro closed_kept_OnNegotiationNeeded [OF 2(2), where co = co and sl = sl]) simp
    then show ?thesis using 2(1) [of c1] 2(3) Return by simp
  next
    case (Blocked c1)
    then have "closed c1" by (intro closed_kept_OnNegotiationNeeded [OF 2(2), where co = co and sl = sl]) simp
    then show ?thesis using 2(3) Blocked by simp
  next
    case (Panic p)
    then show ?thesis using 2(3) by simp
  qed
next
  case (3 cbs c)
  show ?case
  proof (cases "OnIceComplete c")
    case (Return u c1)
    then have "closed c1" by (intro closed_kept_OnIceComplete [OF 3(2)]) simp
    then show ?thesis using 3(1) [of c1] 3(3) Return by simp
  next
    case (Blocked c1)
    then have "closed c1" by (intro closed_kept_OnIceComplete [OF 3(2)]) simp
    then show ?thesis using 3(3) Blocked by simp
  next
    case (Panic p)
    then show ?thesis using 3(3) by simp
  qed
qed

lemma closed_kept_prepare: "closed c \<Longrightarrow> state_after (preparePeerConnection npc c) = Some c' \<Longrightarrow> closed c'"
  by (auto simp: preparePeerConnection_def Let_def split: option.splits sum.splits)

lemma closed_kept_establish: "closed c \<Longrightarrow> state_after (establishDataChannel cdc c) = Some c' \<Longrightarrow> closed c'"
  by (auto simp: establishDataChannel_def Let_def split: option.splits sum.splits if_splits)

lemma closed_kept_sendOffer: "closed c \<Longrightarrow> state_after (sendOfferToBroker c) = Some c' \<Longrightarrow> closed c'"
  by (auto simp: sendOfferToBroker_def Let_def split: option.splits send_result.splits)

lemma closed_kept_answer_loop_aux:
  assumes "answer_loop rt c = Some r"
  shows "closed c \<longrightarrow> (\<forall>c'. state_after r = Some c' \<longrightarrow> closed c')"
proof (rule answer_loop.raw_induct
    [where P = "\<lambda>rt c r. closed c \<longrightarrow> (\<forall>c'. state_after r = Some c' \<longrightarrow> closed c')", OF _ assms])
  fix loop :: "nat \<Rightarrow> WebRTCPeer \<Rightarrow> sdp outcome option" and rt c r
  assume IH: "\<And>rt c r. loop rt c = Some r \<Longrightarrow>
                closed c \<longrightarrow> (\<forall>c'. state_after r = Some c' \<longrightarrow> closed c')"
  assume body: "(case go (sendOfferToBroker c) of
        Panic p \<Rightarrow> Some (Panic p)
      | Blocked c1 \<Rightarrow> Some (Blocked c1)
      | Return u c1 \<Rightarrow>
          (case answerChannel c1 of
             None \<Rightarrow> Some (Blocked c1)
           | Some ch \<Rightarrow>
               (case chan_recv ch of
                  RecvBlocks \<Rightarrow> Some (Blocked c1)
                | ClosedEmpty \<Rightarrow> loop rt (c1\<lparr>calls := calls c1 @ [Sleep rt]\<rparr>)
                | Received v ch' \<Rightarrow>
                    (case v of
                       None \<Rightarrow>
                         loop rt
                           (c1\<lparr>answerChannel := Some ch', calls := calls c1 @ [Sleep rt]\<rparr>)
                     | Some answer \<Rightarrow> Some (Return answer (c1\<lparr>answerChannel := Some ch'\<rparr>)))))) = Some r"
  show "closed c \<longrightarrow> (\<forall>c'. state_after r = Some c' \<longrightarrow> closed c')"
  proof (intro impI allI)
    fix c'
    assume cl: "closed c" and r: "state_after r = Some c'"
    show "closed c'"
    proof (cases "go (sendOfferToBroker c)")
      case (Return u c1)
      then have "state_after (sendOfferToBroker c) = Some c1"
        using state_after_go [of "sendOfferToBroker c"] by simp
      then have c1: "closed c1" by (rule closed_kept_sendOffer [OF cl])
      show ?thesis
      proof (cases "answerChannel c1")
        case None
        then show ?thesis using body r Return c1 by auto
      next
        case (Some ch)
        show ?thesis
        proof (cases "chan_recv ch")
          case (Received v ch')
          show ?thesis
          proof (cases v)
            case None
            then have "loop rt (c1\<lparr>answerChannel := Some ch', calls := calls c1 @ [Sleep rt]\<rparr>) = Some r"
              using body Return Some Received by simp
            from IH [OF this] show ?thesis using c1 r by simp
          next
            case (Some answer)
            then show ?thesis using body r Return c1 \<open>answerChannel c1 = Some ch\<close> Received by auto
          qed
        next
          case ClosedEmpty
          then have "loop rt (c1\<lparr>calls := calls c1 @ [Sleep rt]\<rparr>) = Some r"
            using body Return Some by simp
          from IH [OF this] show ?thesis using c1 r by simp
        next
          case RecvBlocks
          then show ?thesis using body r Return c1 Some by auto
        qed
      qed
    next
      case (Blocked c1)
      then have "state_after (sendOfferToBroker c) = Some c1"
        using state_after_go [of "sendOfferToBroker c"] by simp
      then have c1: "closed c1" by (rule closed_kept_sendOffer [OF cl])
      then show ?thesis using body r Blocked by auto
    next
      case (Panic p)
      then show ?thesis using body r by auto
    qed
  qed
qed

lemma closed_kept_answer_loop:
  "answer_loop rt c = Some r \<Longrightarrow> closed c \<Longrightarrow> state_after r = Some c' \<Longrightarrow> closed c'"
  using closed_kept_answer_loop_aux by blast

lemma closed_kept_select:
  "closed c \<Longrightarrow> state_after (exchangeSDP_select ef c) = Some c' \<Longrightarrow> closed c'"
  by (auto simp: exchangeSDP_select_def receive_offer_def receive_error_def Close_unfold
      split: if_splits option.splits recv_result.splits)

lemma closed_kept_apply_answer:
  "closed c \<Longrightarrow> state_after (apply_answer srd a c) = Some c' \<Longrightarrow> closed c'"
  by (auto simp: apply_answer_def split: option.splits)

lemma closed_kept_exchangeSDP:
  assumes "exchangeSDP w c = Some r" "closed c" "state_after r = Some c'"
  shows "closed c'"
proof (cases "exchangeSDP_select (selectErrorFirst w) c")
  case (Return sel c1)
  then have c1: "closed c1" by (intro closed_kept_select [OF assms(2), where ef = "selectErrorFirst w"]) simp
  show ?thesis
  proof (cases sel)
    case Offer
    then obtain r1 where r1: "answer_loop (ReconnectTimeout w) c1 = Some r1"
      "r = and_then r1 (apply_answer (setRemoteDescription w))"
      using assms(1) Return by (auto simp: exchangeSDP_def split: option.splits)
    show ?thesis
    proof (cases r1)
      case (Return a c2)
      then have "closed c2" by (intro closed_kept_answer_loop [OF r1(1) c1]) simp
      then show ?thesis using r1(2) Return assms(3) by (intro closed_kept_apply_answer [of c2 "setRemoteDescription w" a c']) simp_all
    next
      case (Blocked c2)
      then have "closed c2" by (intro closed_kept_answer_loop [OF r1(1) c1]) simp
      then show ?thesis using r1(2) Blocked assms(3) by simp
    next
      case (Panic p)
      then show ?thesis using r1(2) assms(3) by simp
    qed
  next
    case (Failed err)
    then show ?thesis using assms Return c1 by (auto simp: exchangeSDP_def)
  qed
next
  case (Blocked c1)
  then have c1: "closed c1" by (intro closed_kept_select [OF assms(2), where ef = "selectErrorFirst w"]) simp
  then show ?thesis using assms Blocked by (auto simp: exchangeSDP_def)
next
  case (Panic p)
  then have "r = Panic p" using assms(1) by (simp add: exchangeSDP_def)
  then show ?thesis using assms(3) by simp
qed

lemma closed_kept_Connect:
  assumes "Connect w c = Some r" "closed c" "state_after r = Some c'"
  shows "closed c'"
proof (cases "preparePeerConnection (newPeerConnection w) c")
  case (Return e1 c1)
  then have c1: "closed c1" by (intro closed_kept_prepare [OF assms(2), where npc = "newPeerConnection w"]) simp
  show ?thesis
  proof (cases e1)
    case (Some err)
    then show ?thesis using assms Return c1 by (auto simp: Connect_def)
  next
    case None
    note e1 = None
    show ?thesis
    proof (cases "establishDataChannel (createDataChannel w) c1")
      case (Return e2 c2)
      then have c2: "closed c2" by (intro closed_kept_establish [OF c1, where cdc = "createDataChannel w"]) simp
      show ?thesis
      proof (cases e2)
        case (Some err)
        then show ?thesis using assms \<open>preparePeerConnection (newPeerConnection w) c = Return e1 c1\<close> e1 Return c2
          by (auto simp: Connect_def)
      next
        case None
        note e2 = None
        show ?thesis
        proof (cases "go (deliver (callbacks w) c2)")
          case (Return u c3)
          then have "state_after (deliver (callbacks w) c2) = Some c3"
            using state_after_go [of "deliver (callbacks w) c2"] by simp
          then have c3: "closed c3" by (intro closed_kept_deliver [OF c2, where cbs = "callbacks w"])
          have conn: "Connect w c = (case exchangeSDP w c3 of
                       None \<Rightarrow> None
                     | Some (Return None c4) \<Rightarrow>
                         Some (Return None (c4\<lparr>calls := calls c4 @ [GoCheckForStaleness]\<rparr>))
                     | Some r \<Rightarrow> Some r)"
            using \<open>preparePeerConnection (newPeerConnection w) c = Return e1 c1\<close> e1
              \<open>establishDataChannel (createDataChannel w) c1 = Return e2 c2\<close> e2 Return
            by (simp add: Connect_def)
          show ?thesis
            using assms(1) assms(3) closed_kept_exchangeSDP [of w c3, OF _ c3] unfolding conn
            by (auto split: option.splits outcome.splits)
        next
          case (Blocked c3)
          then have "state_after (deliver (callbacks w) c2) = Some c3"
            using state_after_go [of "deliver (callbacks w) c2"] by simp
          then have c3: "closed c3" by (intro closed_kept_deliver [OF c2, where cbs = "callbacks w"])
          then show ?thesis
            using assms \<open>preparePeerConnection (newPeerConnection w) c = Return e1 c1\<close> e1
              \<open>establishDataChannel (createDataChannel w) c1 = Return e2 c2\<close> e2 Blocked
            by (auto simp: Connect_def)
        next
          case (Panic p)
          then show ?thesis
            using assms \<open>preparePeerConnection (newPeerConnection w) c = Return e1 c1\<close> e1
              \<open>establishDataChannel (createDataChannel w) c1 = Return e2 c2\<close> e2
            by (auto simp: Connect_def)
        qed
      qed
    next
      case (Blocked c2)
      then have c2: "closed c2" by (intro closed_kept_establish [OF c1, where cdc = "createDataChannel w"]) simp
      then show ?thesis
        using assms \<open>preparePeerConnection (newPeerConnection w) c = Return e1 c1\<close> e1 Blocked
        by (auto simp: Connect_def)
    next
      case (Panic p)
      then have "r = Panic p"
        using assms(1) \<open>preparePeerConnection (newPeerConnection w) c = Return e1 c1\<close> e1
        by (simp add: Connect_def)
      then show ?thesis using assms(3) by simp
    qed
  qed
next
  case (Blocked c1)
  then have c1: "closed c1" by (intro closed_kept_prepare [OF assms(2), where npc = "newPeerConnection w"]) simp
  then show ?thesis using assms Blocked by (auto simp: Connect_def)
next
  case (Panic p)
  then have "r = Panic p" using assms(1) by (simp add: Connect_def)
  then show ?thesis using assms(3) by simp
qed

lemma closed_kept_step:
  assumes "closed c" "step e c = Some c'"
  shows "closed c'"
proof (cases e)
  case (EvWrite b)
  then show ?thesis using assms by (auto simp: Write_def split: option.splits)
next
  case EvRead
  then show ?thesis using assms(2) by (simp add: closed_kept_Read [OF assms(1)])
next
  case EvClose
  then show ?thesis using assms(2) by (simp add: closed_kept_Close [OF assms(1)])
next
  case EvReset
  then show ?thesis using assms(2) by (simp add: closed_kept_Reset [OF assms(1)])
next
  case EvWaitForReset
  then show ?thesis using assms(2) by (simp add: closed_kept_WaitForReset [OF assms(1)])
next
  case (EvConnect w)
  then obtain r where "Connect w c = Some r" "state_after r = Some c'"
    using assms(2) by (auto split: option.splits)
  then show ?thesis using closed_kept_Connect assms(1) by blast
next
  case (EvOnOpen dc)
  then show ?thesis using assms(2) by (simp add: closed_kept_OnOpen [OF assms(1)])
next
  case EvOnClose
  then show ?thesis using assms(2) by (simp add: closed_kept_OnClose [OF assms(1)])
next
  case (EvOnMessage msg wr now)
  then show ?thesis using assms(2) by (simp add: closed_kept_OnMessage [OF assms(1)])
next
  case EvOnDataChannel
  then show ?thesis using assms by (simp add: OnDataChannel_def)
next
  case (EvOnNegotiationNeeded co sl)
  then show ?thesis using assms(2) by (simp add: closed_kept_OnNegotiationNeeded [OF assms(1)])
next
  case EvOnIceComplete
  then show ?thesis using assms(2) by (simp add: closed_kept_OnIceComplete [OF assms(1)])
next
  case (EvWatchdogStart t0)
  then show ?thesis using assms by auto
next
  case (EvWatchdogRound T now)
  then show ?thesis using assms by auto
qed

lemma closed_kept_run: "closed c \<Longrightarrow> run es c = Some c' \<Longrightarrow> closed c'"
proof (induction es arbitrary: c)
  case Nil
  then show ?case by simp
next
  case (Cons e es)
  then obtain c1 where c1: "step e c = Some c1" "run es c1 = Some c'"
    by (auto split: option.splits)
  have "closed c1" using closed_kept_step [OF Cons.prems(1) c1(1)] .
  then show ?case using Cons.IH c1(2) by blast
qed

lemma swap_answerChannel_calls:
  "c\<lparr>answerChannel := a, calls := b\<rparr> = c\<lparr>calls := b, answerChannel := a\<rparr>"
  by (cases c) simp

lemma answer_loop_step_fail:
  assumes "broker c = Some b" "pc c = Some p" "answerChannel c = Some make_chan"
    "no_answer (b (requests c) (localDescription c))"
  shows "answer_loop rt c =
     answer_loop rt (c\<lparr>requests := Suc (requests c),
        calls := calls c @ [Negotiate (localDescription c), Sleep rt],
        answerChannel := Some make_chan\<rparr>)"
  apply (subst answer_loop.simps)
  using assms
  apply (simp add: sendOfferToBroker_def go_def chan_send_def chan_recv_def make_chan_def
      chan_capacity_def no_answer_def Let_def swap_answerChannel_calls)
  done

lemma answer_loop_step_ok:
  assumes "broker c = Some b" "pc c = Some p" "answerChannel c = Some make_chan"
    "b (requests c) (localDescription c) = (Some answer, None)"
  shows "answer_loop rt c =
     Some (Return answer (c\<lparr>requests := Suc (requests c),
        calls := calls c @ [Negotiate (localDescription c)],
        answerChannel := Some make_chan\<rparr>))"
  apply (subst answer_loop.simps)
  using assms
  apply (simp add: sendOfferToBroker_def go_def chan_send_def chan_recv_def make_chan_def
      chan_capacity_def no_answer_def Let_def swap_answerChannel_calls)
  done

lemma answer_loop_retries:
  assumes "broker c = Some b" "pc c = Some p" "answerChannel c = Some make_chan"
    "\<forall>i<k. no_answer (b (requests c + i) (localDescription c))"
    "b (requests c + k) (localDescription c) = (Some answer, None)"
  shows "answer_loop rt c =
     Some (Return answer (c\<lparr>requests := requests c + Suc k,
        calls := calls c @ retries k (localDescription c) rt @ [Negotiate (localDescription c)],
        answerChannel := Some make_chan\<rparr>))"
  using assms
proof (induction k arbitrary: c)
  case 0
  then show ?case using answer_loop_step_ok [of c b p answer rt] by simp
next
  case (Suc k)
  let ?c1 = "c\<lparr>requests := Suc (requests c),
        calls := calls c @ [Negotiate (localDescription c), Sleep rt],
        answerChannel := Some make_chan\<rparr>"
  have f: "no_answer (b (requests c) (localDescription c))"
    using Suc.prems(4) by (auto dest: spec [of _ 0])
  have s: "answer_loop rt c = answer_loop rt ?c1"
    using answer_loop_step_fail [OF Suc.prems(1-3) f] .
  have "\<forall>i<k. no_answer (b (requests ?c1 + i) (localDescription ?c1))"
    using Suc.prems(4) by (auto dest: spec [of _ "Suc _"])
  moreover have "b (requests ?c1 + k) (localDescription ?c1) = (Some answer, None)"
    using Suc.prems(5) by simp
  ultimately have "answer_loop rt ?c1 =
     Some (Return answer (?c1\<lparr>requests := requests ?c1 + Suc k,
        calls := calls ?c1 @ retries k (localDescription ?c1) rt @ [Negotiate (localDescription ?c1)],
        answerChannel := Some make_chan\<rparr>))"
    using Suc.IH [of ?c1] Suc.prems(1-3) by simp
  then show ?case using s by simp
qed

lemma answer_loop_never_aux:
  assumes "answer_loop rt c = Some r"
  shows "\<not> (broker c = Some b \<and> pc c = Some p \<and> answerChannel c = Some make_chan
            \<and> (\<forall>i. no_answer (b (requests c + i) (localDescription c))))"
proof (rule answer_loop.raw_induct
    [where P = "\<lambda>rt c r. \<not> (broker c = Some b \<and> pc c = Some p \<and> answerChannel c = Some make_chan
            \<and> (\<forall>i. no_answer (b (requests c + i) (localDescription c))))", OF _ assms])
  fix loop :: "nat \<Rightarrow> WebRTCPeer \<Rightarrow> sdp outcome option" and rt c r
  assume IH: "\<And>rt c r. loop rt c = Some r \<Longrightarrow>
     \<not> (broker c = Some b \<and> pc c = Some p \<and> answerChannel c = Some make_chan
            \<and> (\<forall>i. no_answer (b (requests c + i) (localDescription c))))"
  assume body: "(case go (sendOfferToBroker c) of
        Panic p \<Rightarrow> Some (Panic p)
      | Blocked c1 \<Rightarrow> Some (Blocked c1)
      | Return u c1 \<Rightarrow>
          (case answerChannel c1 of
             None \<Rightarrow> Some (Blocked c1)
           | Some ch \<Rightarrow>
               (case chan_recv ch of
                  RecvBlocks \<Rightarrow> Some (Blocked c1)
                | ClosedEmpty \<Rightarrow> loop rt (c1\<lparr>calls := calls c1 @ [Sleep rt]\<rparr>)
                | Received v ch' \<Rightarrow>
                    (case v of
                       None \<Rightarrow>
                         loop rt
                           (c1\<lparr>answerChannel := Some ch', calls := calls c1 @ [Sleep rt]\<rparr>)
                     | Some answer \<Rightarrow> Some (Return answer (c1\<lparr>answerChannel := Some ch'\<rparr>)))))) = Some r"
  show "\<not> (broker c = Some b \<and> pc c = Some p \<and> answerChannel c = Some make_chan
            \<and> (\<forall>i. no_answer (b (requests c + i) (localDescription c))))"
  proof
    assume inv: "broker c = Some b \<and> pc c = Some p \<and> answerChannel c = Some make_chan
            \<and> (\<forall>i. no_answer (b (requests c + i) (localDescription c)))"
    let ?c1 = "c\<lparr>requests := Suc (requests c),
        calls := calls c @ [Negotiate (localDescription c), Sleep rt],
        answerChannel := Some make_chan\<rparr>"
    have f: "no_answer (b (requests c) (localDescription c))"
      using inv by (auto dest: spec [of _ 0])
    have "loop rt ?c1 = Some r"
      using body inv f
      by (simp add: sendOfferToBroker_def go_def chan_send_def chan_recv_def make_chan_def
          chan_capacity_def no_answer_def Let_def swap_answerChannel_calls)
    from IH [OF this] have "\<not> (\<forall>i. no_answer (b (requests ?c1 + i) (localDescription ?c1)))"
      using inv by simp
    then obtain i where "\<not> no_answer (b (Suc (requests c + i)) (localDescription c))"
      by auto
    then show False using inv by (auto dest: spec [of _ "Suc i"])
  qed
qed

lemma answer_loop_never:
  assumes "broker c = Some b" "pc c = Some p" "answerChannel c = Some make_chan"
    "\<forall>i. no_answer (b (requests c + i) (localDescription c))"
  shows "answer_loop rt c = None"
proof (cases "answer_loop rt c")
  case None
  then show ?thesis .
next
  case (Some r)
  from answer_loop_never_aux [OF this, of b p] assms show ?thesis by blast
qed


lemmas Connect_defs = Connect_def preparePeerConnection_def establishDataChannel_def
  OnNegotiationNeeded_def OnIceComplete_def send_error_def go_def chan_send_def chan_recv_def
  chan_close_def close_unless_nil_def make_chan_def chan_capacity_def exchangeSDP_def
  exchangeSDP_select_def ready_def receive_offer_def receive_error_def Close_unfold cleanup_unfold
  cleanup_channels_def cleanup_pipe_def cleanup_transport_unfold cleanup_pc_def
  CloseWithError_def Reset_def apply_answer_def

lemma after_select_peer2:
  "exchangeSDP_select False (peer2\<lparr>pc := Some 1, localDescription := Some ''offer'',
       offerChannel := Some \<lparr>ch_queue = [Some ''offer''], ch_closed = False\<rparr>\<rparr>)
   = Return Offer (peer2\<lparr>pc := Some 1, localDescription := Some ''offer''\<rparr>)"
  by (simp add: peer2_def NewWebRTCPeer_def exchangeSDP_select_def ready_def receive_offer_def
      chan_recv_def make_chan_def)

lemma Connect_local_failure:
  assumes "pc c = None" "transport c = None" "\<not> closed c"
    "offerChannel c = Some make_chan" "answerChannel c = Some make_chan"
    "errorChannel c = Some make_chan" "reset c = Some make_chan"
    "newPeerConnection w = Inr p" "createDataChannel w = Inr dc"
    "callbacks w = [NegotiationNeeded co sl]"
    "co = Inl err \<or> (co = Inr offer \<and> sl = Some err)"
  shows "\<exists>c'. Connect w c = Some (Return (Some err) c') \<and> closed c' \<and> pc c' = None
           \<and> transport c' = None
           \<and> calls c' = calls c
               @ (case writePipe c of None \<Rightarrow> [] | Some x \<Rightarrow> [PipeCloseWithError None])
               @ [PeerConnectionClose p]"
  using assms
  by (auto simp: Connect_defs split: option.splits)

lemma Connect_remote_failure:
  assumes "pc c = None" "transport c = None" "\<not> closed c"
    "offerChannel c = Some make_chan" "answerChannel c = Some make_chan"
    "errorChannel c = Some make_chan" "reset c = Some make_chan"
    "newPeerConnection w = Inr p" "createDataChannel w = Inr dc"
    "callbacks w = [NegotiationNeeded (Inr offer) None, IceComplete]"
    "broker c = Some b" "b (requests c) (Some offer) = (Some answer, None)"
    "setRemoteDescription w answer = Some err"
  shows "\<exists>c'. Connect w c = Some (Return (Some err) c') \<and> \<not> closed c' \<and> pc c' = Some p
           \<and> calls c' = calls c @ [Negotiate (Some offer), SetRemoteDescription p answer]"
proof -
  let ?c3 = "c\<lparr>pc := Some p, localDescription := Some offer\<rparr>"
  have l: "answer_loop (ReconnectTimeout w) ?c3 =
     Some (Return answer (?c3\<lparr>requests := Suc (requests ?c3),
        calls := calls ?c3 @ [Negotiate (localDescription ?c3)],
        answerChannel := Some make_chan\<rparr>))"
    by (rule answer_loop_step_ok [where b = b and p = p]) (use assms in simp_all)
  have c3: "c\<lparr>pc := Some p, localDescription := Some offer, offerChannel := Some make_chan\<rparr> = ?c3"
    using assms(4) by (cases c) simp
  show ?thesis
    using assms l
    by (simp add: Connect_defs c3 [unfolded make_chan_def] l [unfolded make_chan_def])
qed

lemma exchangeSDP_peer2:
  "exchangeSDP (world1\<lparr>setRemoteDescription := srd\<rparr>)
     (peer2\<lparr>pc := Some 1, localDescription := Some ''offer'',
            offerChannel := Some \<lparr>ch_queue = [Some ''offer''], ch_closed = False\<rparr>\<rparr>)
   = Some (Return (srd ''answer'') peer2_turned_down)"
proof -
  let ?c = "peer2\<lparr>pc := Some 1, localDescription := Some ''offer''\<rparr>"
  have a: "broker ?c = Some broker1" "pc ?c = Some 1" "answerChannel ?c = Some make_chan"
    by (simp_all add: peer2_def NewWebRTCPeer_def)
  have b: "\<forall>i<2. no_answer (broker1 (requests ?c + i) (localDescription ?c))"
    "broker1 (requests ?c + 2) (localDescription ?c) = (Some ''answer'', None)"
    by (simp_all add: broker1_def no_answer_def peer2_def NewWebRTCPeer_def)
  have l: "answer_loop 10 ?c =
     Some (Return ''answer'' (?c\<lparr>requests := requests ?c + Suc 2,
        calls := calls ?c @ retries 2 (localDescription ?c) 10 @ [Negotiate (localDescription ?c)],
        answerChannel := Some make_chan\<rparr>))"
    using answer_loop_retries [OF a b, of 10] .
  show ?thesis
    using after_select_peer2 l
    by (simp add: exchangeSDP_def world1_def apply_answer_def peer2_turned_down_def peer2_def
        NewWebRTCPeer_def numeral_2_eq_2)
qed



subsection \<open>C1: Reset and the reset slot\<close>

text \<open>
  C1, as stated, fails: on a session just made, a first \<open>Reset\<close> returns and leaves its
  signal in the slot; a second \<open>Reset\<close>, with no \<open>WaitForReset\<close> in between, blocks, and
  both signals are kept.
\<close>

theorem second_Reset_blocks:
  "Reset peer0 = Return () (peer0\<lparr>reset := Some \<lparr>ch_queue = [()], ch_closed = False\<rparr>\<rparr>)
   \<and> Reset (peer0\<lparr>reset := Some \<lparr>ch_queue = [()], ch_closed = False\<rparr>\<rparr>)
       = Blocked (peer0\<lparr>reset := Some \<lparr>ch_queue = [(), ()], ch_closed = False\<rparr>\<rparr>)"
  by (simp add: Reset_def peer0_def NewWebRTCPeer_def make_chan_def chan_send_def chan_capacity_def)

text \<open>
  C1, amended. \<open>Reset\<close> returns at once, with no waiter needed, when the reset channel is
  nil (nothing changes) or open with an empty slot (its signal is then in the slot). When
  a signal is already pending in the open channel, \<open>Reset\<close> blocks with its own signal
  queued behind it: nothing is dropped or replaced, and a \<open>WaitForReset\<close> then takes the
  oldest signal and leaves the later one in the channel.
\<close>

theorem Reset_blocks_iff_signal_pending:
  "(reset c = None \<longrightarrow> Reset c = Return () c)
   \<and> (reset c = Some ch \<and> \<not> ch_closed ch \<and> ch_queue ch = [] \<longrightarrow>
        Reset c = Return () (c\<lparr>reset := Some (ch\<lparr>ch_queue := [()]\<rparr>)\<rparr>))
   \<and> (reset c = Some ch \<and> \<not> ch_closed ch \<and> ch_queue ch \<noteq> [] \<longrightarrow>
        Reset c = Blocked (c\<lparr>reset := Some (ch\<lparr>ch_queue := ch_queue ch @ [()]\<rparr>)\<rparr>)
        \<and> WaitForReset (c\<lparr>reset := Some (ch\<lparr>ch_queue := ch_queue ch @ [()]\<rparr>)\<rparr>)
            = Return () (c\<lparr>reset := Some (ch\<lparr>ch_queue := tl (ch_queue ch) @ [()]\<rparr>)\<rparr>))"
  by (cases "ch_queue ch")
     (simp_all add: Reset_def WaitForReset_def chan_send_def chan_recv_def chan_capacity_def)

theorem Reset_blocks_iff_signal_pending_witness:
  "reset (peer0\<lparr>reset := None\<rparr>) = None
   \<and> Reset (peer0\<lparr>reset := None\<rparr>) = Return () (peer0\<lparr>reset := None\<rparr>)
   \<and> reset peer0 = Some make_chan \<and> \<not> ch_closed (make_chan :: unit chan)
   \<and> ch_queue (make_chan :: unit chan) = []
   \<and> Reset peer0 = Return () (peer0\<lparr>reset := Some (make_chan\<lparr>ch_queue := [()]\<rparr>)\<rparr>)
   \<and> reset peer0_closed = Some \<lparr>ch_queue = [()], ch_closed = False\<rparr>
   \<and> Reset peer0_closed
       = Blocked (peer0_closed\<lparr>reset := Some \<lparr>ch_queue = [(), ()], ch_closed = False\<rparr>\<rparr>)
   \<and> WaitForReset (peer0_closed\<lparr>reset := Some \<lparr>ch_queue = [(), ()], ch_closed = False\<rparr>\<rparr>)
       = Return () (peer0_closed\<lparr>reset := Some \<lparr>ch_queue = [()], ch_closed = False\<rparr>\<rparr>)"
proof -
  have a: "reset (peer0\<lparr>reset := None\<rparr>) = None" "reset peer0 = Some make_chan"
    "\<not> ch_closed (make_chan :: unit chan)" "ch_queue (make_chan :: unit chan) = []"
    "reset peer0_closed = Some \<lparr>ch_queue = [()], ch_closed = False\<rparr>"
    by (simp_all add: peer0_def peer0_closed_def NewWebRTCPeer_def make_chan_def)
  show ?thesis
    using a Reset_blocks_iff_signal_pending [of "peer0\<lparr>reset := None\<rparr>"]
      Reset_blocks_iff_signal_pending [of peer0 make_chan]
      Reset_blocks_iff_signal_pending [of peer0_closed "\<lparr>ch_queue = [()], ch_closed = False\<rparr>"]
    by simp
qed

subsection \<open>C2: Close is idempotent\<close>

text \<open>
  C2. For every \<open>n\<close>, \<open>n + 1\<close> calls of \<open>Close\<close> in a row do what one call does: same
  outcome, same state, same calls made. On a closed session \<open>Close\<close> is a no-op that
  returns nil, and \<open>Close\<close> never returns anything but nil. In the state the calls leave
  the session is closed and a further \<open>Close\<close> is a no-op; the engine was asked to close
  a peer connection once if the session was open and had one, and not at all otherwise.
  The flag \<open>closed\<close> is never taken back: after any run of events on a closed session,
  the session is closed.
\<close>

theorem Close_idempotent:
  "Close_again n c = Close c
   \<and> (closed c \<longrightarrow> Close c = Return None c)
   \<and> (Close c = Return r c1 \<longrightarrow> r = None)
   \<and> (state_after (Close_again n c) = Some c1 \<longrightarrow>
        closed c1 \<and> Close c1 = Return None c1
        \<and> pc_closes (calls c1) = pc_closes (calls c) + (if closed c \<or> pc c = None then 0 else 1))
   \<and> (closed c \<and> run es c = Some c' \<longrightarrow> closed c')"
proof -
  have 1: "Close_again n c = Close c" by (rule Close_again_eq)
  have 2: "closed c \<Longrightarrow> Close c = Return None c" by (rule Close_closed_noop)
  have 3: "Close c = Return r c1 \<Longrightarrow> r = None" by (simp add: Close_result)
  have 4: "closed c1" if "state_after (Close c) = Some c1"
    using that Close_result [of c _ c1] Close_blocked [of c c1] by (cases "Close c") auto
  have 5: "closed c \<and> run es c = Some c' \<Longrightarrow> closed c'" using closed_kept_run by blast
  show ?thesis
    using 1 2 3 4 5 Close_closed_noop [of c1] Close_pc_closes [of c c1] by (simp only:) blast
qed

theorem Close_idempotent_witness:
  "Close_again 2 peer1 = Return None peer1_closed
   \<and> Close peer1 = Return None peer1_closed
   \<and> closed peer1_closed
   \<and> Close peer1_closed = Return None peer1_closed
   \<and> pc_closes (calls peer1_closed) = 1
   \<and> run [EvWrite [1], EvOnClose, EvOnOpen 3] peer1_closed = Some (peer1_closed\<lparr>buffer := [],
        calls := [PipeCloseWithError None, DataChannelClose 2, PeerConnectionClose 1,
                  Log ''WebRTC: DataChannel.OnClose [locally]'', Send 3 [1]],
        transport := Some 3\<rparr>)
   \<and> closed (peer1_closed\<lparr>buffer := [],
        calls := [PipeCloseWithError None, DataChannelClose 2, PeerConnectionClose 1,
                  Log ''WebRTC: DataChannel.OnClose [locally]'', Send 3 [1]],
        transport := Some 3\<rparr>)"
proof -
  have c: "closed peer1_closed" "\<not> closed peer1" "pc peer1 = Some 1" "calls peer1 = []"
    by (simp_all add: peer1_closed_def peer0_closed_def peer1_def peer0_def NewWebRTCPeer_def)
  have r: "run [EvWrite [1], EvOnClose, EvOnOpen 3] peer1_closed = Some (peer1_closed\<lparr>buffer := [],
        calls := [PipeCloseWithError None, DataChannelClose 2, PeerConnectionClose 1,
                  Log ''WebRTC: DataChannel.OnClose [locally]'', Send 3 [1]],
        transport := Some 3\<rparr>)"
    by (simp add: Write_def OnClose_unfold OnOpen_def peer1_closed_def peer0_closed_def peer0_def
        NewWebRTCPeer_def)
  have a: "Close_again 2 peer1 = Close peer1"
    using Close_idempotent [of 2 peer1] by blast
  have b: "Close peer1_closed = Return None peer1_closed"
    using Close_idempotent [of 0 peer1_closed] c(1) by blast
  have d: "pc_closes (calls peer1_closed) = 1"
    using Close_idempotent [of 2 peer1 None peer1_closed] a c Close_peer1 by simp
  have e: "closed (peer1_closed\<lparr>buffer := [],
        calls := [PipeCloseWithError None, DataChannelClose 2, PeerConnectionClose 1,
                  Log ''WebRTC: DataChannel.OnClose [locally]'', Send 3 [1]],
        transport := Some 3\<rparr>)"
    using Close_idempotent [of 0 peer1_closed None peer1_closed "[EvWrite [1], EvOnClose, EvOnOpen 3]"] c(1) r
    by blast
  show ?thesis using a b c(1) d e r Close_peer1 by simp
qed

subsection \<open>C3: buffered writes reach the data channel in order, once\<close>

text \<open>
  C3. Let the session have no data channel (\<open>transport\<close> is nil), and let \<open>before\<close> be
  any run of writes made then. When the data channel \<open>dc\<close> opens, the open callback
  returns with \<open>dc\<close> as the transport and an empty buffer, having made at most one call:
  one \<open>Send\<close> to \<open>dc\<close> of all the buffered bytes (those of the buffer at the start
  followed by the writes of \<open>before\<close>, in order), and none when there was nothing to send.
  Any run \<open>after\<close> of later writes makes one \<open>Send\<close> to \<open>dc\<close> for each write, in order,
  and leaves the buffer empty. So the bytes given to \<open>dc\<close> are the buffered bytes in the
  order written, then the later writes, nothing twice and nothing lost.
\<close>

theorem buffered_writes_flushed_in_order:
  assumes "transport c = None"
  shows "\<exists>c1. OnOpen dc (Writes c before) = Return () c1
     \<and> transport c1 = Some dc \<and> buffer c1 = []
     \<and> calls c1 = calls c @ (if buffer c @ concat before = [] then []
                              else [Send dc (buffer c @ concat before)])
     \<and> calls (Writes c1 after) = calls c1 @ map (Send dc) after
     \<and> buffer (Writes c1 after) = []
     \<and> sent_bytes dc (calls (Writes c1 after)) =
         sent_bytes dc (calls c) @ buffer c @ concat before @ concat after"
proof -
  let ?c0 = "Writes c before"
  have w: "?c0 = c\<lparr>buffer := buffer c @ concat before\<rparr>"
    using assms by (rule Writes_absent)
  let ?c1 = "?c0\<lparr>calls := calls ?c0 @ (if buffer ?c0 = [] then [] else [Send dc (buffer ?c0)]),
                 buffer := [], transport := Some dc\<rparr>"
  have o: "OnOpen dc ?c0 = Return () ?c1"
    by (rule OnOpen_absent) (simp add: w assms)
  have p: "Writes ?c1 after = ?c1\<lparr>calls := calls ?c1 @ map (Send dc) after\<rparr>"
    by (rule Writes_present) simp
  show ?thesis
    apply (rule exI[of _ ?c1])
    apply (simp only: o p)
    apply (simp add: w sent_bytes_append sent_bytes_Sends)
    done
qed

theorem buffered_writes_flushed_in_order_witness:
  "transport peer0 = None
   \<and> (\<exists>c1. OnOpen 7 (Writes peer0 [[1, 2], [3]]) = Return () c1
        \<and> calls c1 = [Send 7 [1, 2, 3]]
        \<and> calls (Writes c1 [[4], [5, 6]]) = [Send 7 [1, 2, 3], Send 7 [4], Send 7 [5, 6]]
        \<and> sent_bytes 7 (calls (Writes c1 [[4], [5, 6]])) = [1, 2, 3, 4, 5, 6])"
proof -
  have t: "transport peer0 = None"
    by (simp add: peer0_def NewWebRTCPeer_def)
  from buffered_writes_flushed_in_order [OF t, of 7 "[[1, 2], [3]]" "[[4], [5, 6]]"]
  obtain c1 where c1: "OnOpen 7 (Writes peer0 [[1, 2], [3]]) = Return () c1"
    "calls c1 = calls peer0 @
       (if buffer peer0 @ concat [[1, 2], [3]] = [] then []
        else [Send 7 (buffer peer0 @ concat [[1, 2], [3]])])"
    "calls (Writes c1 [[4], [5, 6]]) = calls c1 @ map (Send 7) [[4], [5, 6]]"
    "sent_bytes 7 (calls (Writes c1 [[4], [5, 6]])) =
       sent_bytes 7 (calls peer0) @ buffer peer0
         @ concat [[1, 2], [3]] @ concat [[4], [5, 6]]"
    by blast
  have "calls c1 = [Send 7 [1, 2, 3]]"
    using c1(2) by (simp add: peer0_def NewWebRTCPeer_def)
  moreover have "sent_bytes 7 (calls (Writes c1 [[4], [5, 6]])) = [1, 2, 3, 4, 5, 6]"
    using c1(4) by (simp add: peer0_def NewWebRTCPeer_def)
  ultimately show ?thesis
    using t c1(1) c1(3) by auto
qed

subsection \<open>C4: negotiation errors and Connect\<close>

text \<open>
  C4, as stated, fails for the remote description: with a broker that answers at its
  third request and an engine that turns the answer down, \<open>Connect\<close> returns the error
  of \<^verbatim>\<open>SetRemoteDescription\<close> and the session is not closed.
\<close>

theorem rejected_answer_leaves_session_open:
  "Connect world1 peer2 = Some (Return (Some ''bad answer'') peer2_turned_down)
   \<and> \<not> closed peer2_turned_down"
proof -
  have c: "Connect world1 peer2 =
     (case exchangeSDP world1 (peer2\<lparr>pc := Some 1, localDescription := Some ''offer'',
            offerChannel := Some \<lparr>ch_queue = [Some ''offer''], ch_closed = False\<rparr>\<rparr>) of
        None \<Rightarrow> None
      | Some (Return None c4) \<Rightarrow>
          Some (Return None (c4\<lparr>calls := calls c4 @ [GoCheckForStaleness]\<rparr>))
      | Some r \<Rightarrow> Some r)"
    by (simp add: Connect_def preparePeerConnection_def establishDataChannel_def
        OnNegotiationNeeded_def OnIceComplete_def go_def chan_send_def make_chan_def
        chan_capacity_def world1_def peer2_def NewWebRTCPeer_def)
  have w: "world1\<lparr>setRemoteDescription := setRemoteDescription world1\<rparr> = world1"
    by simp
  have e: "exchangeSDP world1 (peer2\<lparr>pc := Some 1, localDescription := Some ''offer'',
            offerChannel := Some \<lparr>ch_queue = [Some ''offer''], ch_closed = False\<rparr>\<rparr>)
     = Some (Return (Some ''bad answer'') peer2_turned_down)"
    using exchangeSDP_peer2 [of "setRemoteDescription world1"] unfolding w
    by (simp add: world1_def)
  show ?thesis
    unfolding c e by (simp add: peer2_turned_down_def peer2_def NewWebRTCPeer_def)
qed

text \<open>
  C4, amended. Take a session that has not been connected or closed (no peer connection, no
  data channel, its channels as made) and an engine that makes the peer connection and
  the data channel. If making the offer fails (\<^verbatim>\<open>CreateOffer\<close> or
  \<^verbatim>\<open>SetLocalDescription\<close> returns the error \<open>err\<close>), \<open>Connect\<close> returns \<open>err\<close> and the
  session is closed: the flag is set, the peer connection is closed and gone. If the offer
  is made, the broker answers and \<^verbatim>\<open>SetRemoteDescription\<close> returns the error \<open>err\<close>,
  \<open>Connect\<close> returns \<open>err\<close> too, but the session is not closed: the flag is not set
  and the peer connection stays.
\<close>

theorem negotiation_errors_returned_from_Connect:
  assumes "pc c = None" "transport c = None" "\<not> closed c"
    "offerChannel c = Some make_chan" "answerChannel c = Some make_chan"
    "errorChannel c = Some make_chan" "reset c = Some make_chan"
    "newPeerConnection w = Inr p" "createDataChannel w = Inr dc"
  shows
   "(callbacks w = [NegotiationNeeded co sl] \<and> (co = Inl err \<or> (co = Inr offer \<and> sl = Some err)) \<longrightarrow>
       (\<exists>c'. Connect w c = Some (Return (Some err) c') \<and> closed c' \<and> pc c' = None
           \<and> transport c' = None
           \<and> calls c' = calls c
               @ (case writePipe c of None \<Rightarrow> [] | Some x \<Rightarrow> [PipeCloseWithError None])
               @ [PeerConnectionClose p]))
    \<and> (callbacks w = [NegotiationNeeded (Inr offer) None, IceComplete]
        \<and> broker c = Some b \<and> b (requests c) (Some offer) = (Some answer, None)
        \<and> setRemoteDescription w answer = Some err \<longrightarrow>
       (\<exists>c'. Connect w c = Some (Return (Some err) c') \<and> \<not> closed c' \<and> pc c' = Some p
           \<and> calls c' = calls c @ [Negotiate (Some offer), SetRemoteDescription p answer]))"
  using Connect_local_failure [OF assms, of co sl err offer]
    Connect_remote_failure [OF assms, of offer b answer err]
  by blast

theorem negotiation_errors_returned_from_Connect_witness:
  "pc peer0 = None \<and> transport peer0 = None \<and> \<not> closed peer0
   \<and> offerChannel peer0 = Some make_chan \<and> answerChannel peer0 = Some make_chan
   \<and> errorChannel peer0 = Some make_chan \<and> reset peer0 = Some make_chan
   \<and> (\<exists>c'. Connect (world1\<lparr>callbacks := [NegotiationNeeded (Inr ''offer'') (Some ''no local description'')]\<rparr>) peer0
             = Some (Return (Some ''no local description'') c')
           \<and> closed c' \<and> calls c' = [PipeCloseWithError None, PeerConnectionClose 1])
   \<and> broker (peer2\<lparr>requests := 2\<rparr>) = Some broker1
   \<and> broker1 2 (Some ''offer'') = (Some ''answer'', None)
   \<and> (\<exists>c'. Connect world1 (peer2\<lparr>requests := 2\<rparr>) = Some (Return (Some ''bad answer'') c')
           \<and> \<not> closed c' \<and> pc c' = Some 1
           \<and> calls c' = [Negotiate (Some ''offer''), SetRemoteDescription 1 ''answer''])"
proof -
  let ?w = "world1\<lparr>callbacks := [NegotiationNeeded (Inr ''offer'') (Some ''no local description'')]\<rparr>"
  let ?c = "peer2\<lparr>requests := 2\<rparr>"
  have a: "pc peer0 = None" "transport peer0 = None" "\<not> closed peer0"
    "offerChannel peer0 = Some make_chan" "answerChannel peer0 = Some make_chan"
    "errorChannel peer0 = Some make_chan" "reset peer0 = Some make_chan"
    "newPeerConnection ?w = Inr 1" "createDataChannel ?w = Inr 2"
    by (simp_all add: peer0_def NewWebRTCPeer_def world1_def)
  have b: "pc ?c = None" "transport ?c = None" "\<not> closed ?c"
    "offerChannel ?c = Some make_chan" "answerChannel ?c = Some make_chan"
    "errorChannel ?c = Some make_chan" "reset ?c = Some make_chan"
    "newPeerConnection world1 = Inr 1" "createDataChannel world1 = Inr 2"
    by (simp_all add: peer2_def NewWebRTCPeer_def world1_def)
  have c: "callbacks ?w = [NegotiationNeeded (Inr ''offer'') (Some ''no local description'')]"
    "callbacks world1 = [NegotiationNeeded (Inr ''offer'') None, IceComplete]"
    "broker ?c = Some broker1" "broker1 (requests ?c) (Some ''offer'') = (Some ''answer'', None)"
    "setRemoteDescription world1 ''answer'' = Some ''bad answer''"
    "broker1 2 (Some ''offer'') = (Some ''answer'', None)"
    "calls peer0 = []" "calls ?c = []" "writePipe peer0 = Some ()"
    by (simp_all add: peer0_def peer2_def NewWebRTCPeer_def world1_def broker1_def)
  have 1: "\<exists>c'. Connect ?w peer0 = Some (Return (Some ''no local description'') c')
           \<and> closed c' \<and> calls c' = [PipeCloseWithError None, PeerConnectionClose 1]"
    using negotiation_errors_returned_from_Connect [OF a,
        of "Inr ''offer''" "Some ''no local description''" "''no local description''" "''offer''"] c
    by auto
  have 2: "\<exists>c'. Connect world1 ?c = Some (Return (Some ''bad answer'') c')
           \<and> \<not> closed c' \<and> pc c' = Some 1
           \<and> calls c' = [Negotiate (Some ''offer''), SetRemoteDescription 1 ''answer'']"
    using negotiation_errors_returned_from_Connect [OF b,
        of _ _ "''bad answer''" "''offer''" broker1 "''answer''"] c
    by auto
  show ?thesis using a(1-7) c(3,6) 1 2 by blast
qed

subsection \<open>C5: a failed delivery to the pipe\<close>

text \<open>
  C5, as stated, fails: when the write of a one-byte message to the pipe returns no byte
  written and an error, the callback panics with \<^verbatim>\<open>short write\<close>, and nothing of the
  session is left.
\<close>

theorem failed_delivery_panics:
  "OnMessage [1] (0, Some ''io: read/write on closed pipe'') 5 peer1 = Panic ''short write''
   \<and> step (EvOnMessage [1] (0, Some ''io: read/write on closed pipe'') 5) peer1 = None"
  by (simp add: OnMessage_def peer1_def peer0_def NewWebRTCPeer_def)

text \<open>
  C5, amended. Let the pipe's write of an inbound message return the error \<open>err\<close>. When
  the count it returns is the length of the message, the callback closes the write end of
  the pipe with \<open>err\<close>, sets \<open>lastReceive\<close> and returns; the consumer's next \<open>Read\<close>
  then returns an error and no byte: \<^verbatim>\<open>io.ErrClosedPipe\<close> when the read end is closed
  (the state in which a write to an open write end fails), else the error the write end
  was first closed with, which is \<open>err\<close> if it was open. The callback does not call
  \<open>Close\<close>: the flag \<open>closed\<close>, the data channel, the peer connection and the reset slot
  are as before. When the count is not the length of the message, the callback panics
  with \<^verbatim>\<open>short write\<close>.
\<close>

theorem failed_delivery_closes_pipe_only:
  "writePipe c \<noteq> None \<and> snd wr = Some err \<longrightarrow>
     (fst wr = length msg \<longrightarrow>
        (\<exists>c'. OnMessage msg wr now c = Return () c'
           \<and> calls c' = calls c @ [PipeCloseWithError (Some err)]
           \<and> pipeErr c' = Some (case pipeErr c of None \<Rightarrow> err | Some e0 \<Rightarrow> e0)
           \<and> readErr c' = readErr c
           \<and> Read c' =
               Return (0, Some (case readErr c of
                                  Some e \<Rightarrow> ErrClosedPipe
                                | None \<Rightarrow> (case pipeErr c of None \<Rightarrow> err | Some e0 \<Rightarrow> e0))) c'
           \<and> closed c' = closed c \<and> transport c' = transport c \<and> pc c' = pc c
           \<and> reset c' = reset c \<and> lastReceive c' = now))
     \<and> (fst wr \<noteq> length msg \<longrightarrow> OnMessage msg wr now c = Panic ''short write'')"
  by (auto simp: OnMessage_def CloseWithError_def Read_def split: option.splits)

theorem failed_delivery_closes_pipe_only_witness:
  "writePipe (peer1\<lparr>readErr := Some ErrClosedPipe\<rparr>) \<noteq> None
   \<and> snd (0 :: nat, Some ErrClosedPipe) = Some ErrClosedPipe
   \<and> fst (0 :: nat, Some ErrClosedPipe) = length ([] :: bytes)
   \<and> OnMessage [] (0, Some ErrClosedPipe) 5 (peer1\<lparr>readErr := Some ErrClosedPipe\<rparr>)
       = Return () (peer1\<lparr>readErr := Some ErrClosedPipe, pipeErr := Some ErrClosedPipe,
                           calls := [PipeCloseWithError (Some ErrClosedPipe)], lastReceive := 5\<rparr>)
   \<and> Read (peer1\<lparr>readErr := Some ErrClosedPipe, pipeErr := Some ErrClosedPipe,
                           calls := [PipeCloseWithError (Some ErrClosedPipe)], lastReceive := 5\<rparr>)
       = Return (0, Some ErrClosedPipe)
           (peer1\<lparr>readErr := Some ErrClosedPipe, pipeErr := Some ErrClosedPipe,
                           calls := [PipeCloseWithError (Some ErrClosedPipe)], lastReceive := 5\<rparr>)
   \<and> \<not> closed (peer1\<lparr>readErr := Some ErrClosedPipe, pipeErr := Some ErrClosedPipe,
                           calls := [PipeCloseWithError (Some ErrClosedPipe)], lastReceive := 5\<rparr>)
   \<and> fst (0 :: nat, Some ErrClosedPipe) \<noteq> length [1 :: byte]
   \<and> OnMessage [1] (0, Some ErrClosedPipe) 5 (peer1\<lparr>readErr := Some ErrClosedPipe\<rparr>)
       = Panic ''short write''"
proof -
  let ?c = "peer1\<lparr>readErr := Some ErrClosedPipe\<rparr>"
  let ?c' = "peer1\<lparr>readErr := Some ErrClosedPipe, pipeErr := Some ErrClosedPipe,
                           calls := [PipeCloseWithError (Some ErrClosedPipe)], lastReceive := 5\<rparr>"
  have a: "writePipe ?c \<noteq> None" "\<not> closed ?c" "pipeErr ?c = None" "calls ?c = []"
    "readErr ?c = Some ErrClosedPipe" "\<not> closed ?c'"
    by (simp_all add: peer1_def peer0_def NewWebRTCPeer_def)
  have b: "OnMessage [] (0, Some ErrClosedPipe) 5 ?c = Return () ?c'"
    by (simp add: OnMessage_def CloseWithError_def peer1_def peer0_def NewWebRTCPeer_def)
  from failed_delivery_closes_pipe_only [of ?c "(0, Some ErrClosedPipe)" ErrClosedPipe "[]" 5] a b
  have c: "Read ?c' = Return (0, Some ErrClosedPipe) ?c'"
    by simp
  from failed_delivery_closes_pipe_only [of ?c "(0, Some ErrClosedPipe)" ErrClosedPipe "[1]" 5] a
  have d: "OnMessage [1] (0, Some ErrClosedPipe) 5 ?c = Panic ''short write''"
    by simp
  show ?thesis using a b c d by simp
qed

subsection \<open>C6: the closed callback tells a local close from a remote one\<close>

text \<open>
  C6. With no data channel in \<open>transport\<close> the closed callback takes no action: it
  writes its log line for a local close and returns. With one, it writes its log line for
  a remote close, clears \<open>transport\<close> and calls \<open>Close\<close>; on an open session the
  session is then closed, the pipe and the peer connection are closed, and the engine is
  not asked to close the data channel. The local close path clears \<open>transport\<close> before
  it asks the engine to close the data channel: an engine that runs the closed callback
  before the request returns has it find \<open>transport\<close> nil, so that the request is
  followed by the log line for a local close, and by no log line for a remote one and no
  second \<open>Close\<close>; this holds of \<open>cleanup_transport\<close> and of a \<open>Close\<close> of an open
  session. A closed callback that comes after that \<open>Close\<close> takes the local way too.
\<close>

theorem OnClose_tells_local_from_remote:
  "(transport c = None \<longrightarrow>
      OnClose c = Return () (c\<lparr>calls := calls c @ [Log ''WebRTC: DataChannel.OnClose [locally]'']\<rparr>))
   \<and> (transport c = Some dc \<longrightarrow>
        OnClose c =
          and_then (Close (c\<lparr>calls := calls c @ [Log ''WebRTC: DataChannel.OnClose [remotely]''],
                             transport := None\<rparr>)) (\<lambda>_ c1. Return () c1)
        \<and> (\<not> closed c \<and> state_after (OnClose c) = Some c' \<longrightarrow>
             closed c' \<and> transport c' = None \<and> pc c' = None
             \<and> calls c' = calls c @ [Log ''WebRTC: DataChannel.OnClose [remotely]'']
                 @ (case writePipe c of None \<Rightarrow> [] | Some w \<Rightarrow> [PipeCloseWithError None])
                 @ (case pc c of None \<Rightarrow> [] | Some p \<Rightarrow> [PeerConnectionClose p]))
        \<and> cleanup_transport c =
            Return () (c\<lparr>transport := None,
               calls := calls c @ DataChannelClose dc #
                 (if firesOnClose c then [Log ''WebRTC: DataChannel.OnClose [locally]''] else [])\<rparr>)
        \<and> (\<not> closed c \<and> state_after (Close c) = Some c1 \<longrightarrow>
             closed c1 \<and> transport c1 = None
             \<and> calls c1 = calls c
                 @ (case writePipe c of None \<Rightarrow> [] | Some w \<Rightarrow> [PipeCloseWithError None])
                 @ DataChannelClose dc #
                     (if firesOnClose c then [Log ''WebRTC: DataChannel.OnClose [locally]''] else [])
                 @ (case pc c of None \<Rightarrow> [] | Some p \<Rightarrow> [PeerConnectionClose p])
             \<and> OnClose c1 =
                 Return () (c1\<lparr>calls := calls c1 @ [Log ''WebRTC: DataChannel.OnClose [locally]'']\<rparr>)))"
proof -
  have 1: "transport c = None \<Longrightarrow>
      OnClose c = Return () (c\<lparr>calls := calls c @ [Log ''WebRTC: DataChannel.OnClose [locally]'']\<rparr>)"
    by (simp add: OnClose_unfold)
  have 2: "transport c = Some dc \<Longrightarrow>
        OnClose c =
          and_then (Close (c\<lparr>calls := calls c @ [Log ''WebRTC: DataChannel.OnClose [remotely]''],
                             transport := None\<rparr>)) (\<lambda>_ c1. Return () c1)"
    by (simp add: OnClose_unfold)
  have 3: "closed c' \<and> transport c' = None \<and> pc c' = None
             \<and> calls c' = calls c @ [Log ''WebRTC: DataChannel.OnClose [remotely]'']
                 @ (case writePipe c of None \<Rightarrow> [] | Some w \<Rightarrow> [PipeCloseWithError None])
                 @ (case pc c of None \<Rightarrow> [] | Some p \<Rightarrow> [PeerConnectionClose p])"
    if "transport c = Some dc" "\<not> closed c" "state_after (OnClose c) = Some c'"
  proof -
    let ?c0 = "c\<lparr>calls := calls c @ [Log ''WebRTC: DataChannel.OnClose [remotely]''],
                 transport := None\<rparr>"
    have "state_after (Close ?c0) = Some c'"
      using that by (cases "Close ?c0") (auto simp: OnClose_unfold)
    from Close_calls [OF _ this] that(2) show ?thesis by simp
  qed
  have 4: "transport c = Some dc \<Longrightarrow>
        cleanup_transport c =
            Return () (c\<lparr>transport := None,
               calls := calls c @ DataChannelClose dc #
                 (if firesOnClose c then [Log ''WebRTC: DataChannel.OnClose [locally]''] else [])\<rparr>)"
    by (simp add: cleanup_transport_unfold)
  have 5: "closed c1 \<and> transport c1 = None
             \<and> calls c1 = calls c
                 @ (case writePipe c of None \<Rightarrow> [] | Some w \<Rightarrow> [PipeCloseWithError None])
                 @ DataChannelClose dc #
                     (if firesOnClose c then [Log ''WebRTC: DataChannel.OnClose [locally]''] else [])
                 @ (case pc c of None \<Rightarrow> [] | Some p \<Rightarrow> [PeerConnectionClose p])
             \<and> OnClose c1 =
                 Return () (c1\<lparr>calls := calls c1 @ [Log ''WebRTC: DataChannel.OnClose [locally]'']\<rparr>)"
    if "transport c = Some dc" "\<not> closed c" "state_after (Close c) = Some c1"
    using Close_calls [OF that(2,3)] that(1) by (simp add: OnClose_unfold)
  show ?thesis using 1 2 3 4 5 by blast
qed

theorem OnClose_tells_local_from_remote_witness:
  "transport peer0 = None
   \<and> OnClose peer0 = Return () (peer0\<lparr>calls := [Log ''WebRTC: DataChannel.OnClose [locally]'']\<rparr>)
   \<and> transport peer1 = Some 2 \<and> \<not> closed peer1
   \<and> state_after (OnClose peer1)
       = Some (peer1_closed\<lparr>calls := [Log ''WebRTC: DataChannel.OnClose [remotely]'',
                                      PipeCloseWithError None, PeerConnectionClose 1]\<rparr>)
   \<and> closed (peer1_closed\<lparr>calls := [Log ''WebRTC: DataChannel.OnClose [remotely]'',
                                      PipeCloseWithError None, PeerConnectionClose 1]\<rparr>)
   \<and> transport (peer1\<lparr>firesOnClose := True\<rparr>) = Some 2 \<and> \<not> closed (peer1\<lparr>firesOnClose := True\<rparr>)
   \<and> cleanup_transport (peer1\<lparr>firesOnClose := True\<rparr>)
       = Return () (peer1\<lparr>firesOnClose := True, transport := None,
            calls := [DataChannelClose 2, Log ''WebRTC: DataChannel.OnClose [locally]'']\<rparr>)
   \<and> state_after (Close (peer1\<lparr>firesOnClose := True\<rparr>))
       = Some (peer1_closed\<lparr>firesOnClose := True,
            calls := [PipeCloseWithError None, DataChannelClose 2,
                      Log ''WebRTC: DataChannel.OnClose [locally]'', PeerConnectionClose 1]\<rparr>)
   \<and> OnClose (peer1_closed\<lparr>firesOnClose := True,
            calls := [PipeCloseWithError None, DataChannelClose 2,
                      Log ''WebRTC: DataChannel.OnClose [locally]'', PeerConnectionClose 1]\<rparr>)
       = Return () (peer1_closed\<lparr>firesOnClose := True,
            calls := [PipeCloseWithError None, DataChannelClose 2,
                      Log ''WebRTC: DataChannel.OnClose [locally]'', PeerConnectionClose 1,
                      Log ''WebRTC: DataChannel.OnClose [locally]'']\<rparr>)"
proof -
  let ?f = "peer1\<lparr>firesOnClose := True\<rparr>"
  let ?r = "peer1_closed\<lparr>calls := [Log ''WebRTC: DataChannel.OnClose [remotely]'',
                                      PipeCloseWithError None, PeerConnectionClose 1]\<rparr>"
  let ?l = "peer1_closed\<lparr>firesOnClose := True,
            calls := [PipeCloseWithError None, DataChannelClose 2,
                      Log ''WebRTC: DataChannel.OnClose [locally]'', PeerConnectionClose 1]\<rparr>"
  have a: "transport peer0 = None" "transport peer1 = Some 2" "\<not> closed peer1"
    "transport ?f = Some 2" "\<not> closed ?f" "calls peer0 = []" "calls ?f = []" "firesOnClose ?f"
    by (simp_all add: peer1_def peer0_def NewWebRTCPeer_def)
  have b: "state_after (OnClose peer1) = Some ?r"
    by (simp add: OnClose_unfold Close_unfold cleanup_unfold cleanup_channels_def cleanup_pipe_def
      cleanup_transport_unfold cleanup_pc_def CloseWithError_def
      Reset_def NewWebRTCPeer_def make_chan_def close_unless_nil_def
      chan_close_def chan_send_def chan_capacity_def peer0_def peer0_closed_def peer1_def
      peer1_closed_def)
  have c: "state_after (Close ?f) = Some ?l"
    by (simp add: Close_unfold cleanup_unfold cleanup_channels_def cleanup_pipe_def
      cleanup_transport_unfold cleanup_pc_def CloseWithError_def
      Reset_def NewWebRTCPeer_def make_chan_def close_unless_nil_def
      chan_close_def chan_send_def chan_capacity_def peer0_def peer0_closed_def peer1_def
      peer1_closed_def)
  note t1 = OnClose_tells_local_from_remote [of peer0]
  note t2 = OnClose_tells_local_from_remote [of peer1 2 ?r]
  note t3 = OnClose_tells_local_from_remote [of ?f 2 _ ?l]
  have 1: "OnClose peer0 = Return () (peer0\<lparr>calls := [Log ''WebRTC: DataChannel.OnClose [locally]'']\<rparr>)"
    using t1 a by simp
  have 2: "closed ?r" using t2 a b by blast
  have 3: "cleanup_transport ?f
       = Return () (peer1\<lparr>firesOnClose := True, transport := None,
            calls := [DataChannelClose 2, Log ''WebRTC: DataChannel.OnClose [locally]'']\<rparr>)"
    using t3 a by simp
  have 4: "OnClose ?l = Return () (?l\<lparr>calls := calls ?l @ [Log ''WebRTC: DataChannel.OnClose [locally]'']\<rparr>)"
    using t3 a(4,5) c by blast
  show ?thesis using a(1-5) b c 1 2 3 4 by simp
qed

subsection \<open>C7: invariant violations panic\<close>

text \<open>
  C7. With a data channel in \<open>transport\<close>, \<open>establishDataChannel\<close> panics (and so does
  \<open>Connect\<close>, once the peer connection is made: the panic is not turned into an error),
  and the open callback panics. The callback for a data channel offered by the remote peer
  always panics. The message callback panics whenever the count of bytes written to the
  pipe is not the length of the message. In each case nothing of the session is left.
\<close>

theorem invariant_violations_panic:
  "(transport c \<noteq> None \<longrightarrow>
      establishDataChannel cdc c = Panic ''Unexpected datachannel already exists!''
      \<and> (newPeerConnection w = Inr p \<longrightarrow>
           Connect w c = Some (Panic ''Unexpected datachannel already exists!''))
      \<and> OnOpen dc c = Panic ''WebRTC: transport already exists.''
      \<and> step (EvOnOpen dc) c = None)
   \<and> OnDataChannel c = Panic ''Unexpected OnDataChannel!''
   \<and> step EvOnDataChannel c = None
   \<and> (fst wr \<noteq> length msg \<longrightarrow>
        OnMessage msg wr now c =
          (if writePipe c = None then Panic ''invalid memory address or nil pointer dereference''
           else Panic ''short write'')
        \<and> step (EvOnMessage msg wr now) c = None)"
  by (auto simp: establishDataChannel_def OnOpen_def OnDataChannel_def OnMessage_def Connect_def
      preparePeerConnection_def Let_def split: option.splits)

theorem invariant_violations_panic_witness:
  "transport peer1 \<noteq> None
   \<and> establishDataChannel (Inr 3) peer1 = Panic ''Unexpected datachannel already exists!''
   \<and> newPeerConnection world1 = Inr 1
   \<and> Connect world1 peer1 = Some (Panic ''Unexpected datachannel already exists!'')
   \<and> OnOpen 3 peer1 = Panic ''WebRTC: transport already exists.''
   \<and> OnDataChannel peer1 = Panic ''Unexpected OnDataChannel!''
   \<and> fst (1 :: nat, None :: error option) \<noteq> length [1, 2 :: byte]
   \<and> OnMessage [1, 2] (1, None) 5 peer1 = Panic ''short write''
   \<and> step (EvOnMessage [1, 2] (1, None) 5) peer1 = None"
proof -
  have a: "transport peer1 \<noteq> None" "newPeerConnection world1 = Inr 1" "writePipe peer1 \<noteq> None"
    by (simp_all add: peer1_def peer0_def NewWebRTCPeer_def world1_def)
  show ?thesis
    using a invariant_violations_panic [of peer1 "Inr 3" world1 1 3 "(1, None)" "[1, 2]" 5]
    by simp
qed

subsection \<open>C8: the broker is asked again until it answers\<close>

text \<open>
  C8. Let the session have a broker and a peer connection, and its answer channel open and
  empty. If the broker's next \<open>k\<close> replies are an error or a nil answer and the reply
  after them is the answer \<open>answer\<close> with no error, the loop returns \<open>answer\<close> after
  \<open>k + 1\<close> requests, all with the same offer (the local description), and \<open>k\<close> waits
  of \<^verbatim>\<open>ReconnectTimeout\<close>, one after each failed request, for every \<open>k\<close>; and
  \<open>exchangeSDP\<close>, once its \<^verbatim>\<open>select\<close> has taken the offer, returns what
  \<^verbatim>\<open>SetRemoteDescription\<close> returns for that answer (nil when the engine accepts it): no
  failure of the broker reaches the caller. If the broker never answers, the loop and
  \<open>exchangeSDP\<close> never return.
\<close>

theorem broker_failures_are_retried:
  assumes "broker c = Some b" "pc c = Some p" "answerChannel c = Some make_chan"
  shows
   "((\<forall>i<k. no_answer (b (requests c + i) (localDescription c)))
      \<and> b (requests c + k) (localDescription c) = (Some answer, None) \<longrightarrow>
        answer_loop (ReconnectTimeout w) c =
          Some (Return answer (c\<lparr>requests := requests c + Suc k,
             calls := calls c @ retries k (localDescription c) (ReconnectTimeout w)
                        @ [Negotiate (localDescription c)],
             answerChannel := Some make_chan\<rparr>))
        \<and> (exchangeSDP_select (selectErrorFirst w) c0 = Return Offer c \<longrightarrow>
             exchangeSDP w c0 =
               Some (Return (setRemoteDescription w answer) (c\<lparr>requests := requests c + Suc k,
                  calls := calls c @ retries k (localDescription c) (ReconnectTimeout w)
                        @ [Negotiate (localDescription c), SetRemoteDescription p answer],
                  answerChannel := Some make_chan\<rparr>))))
    \<and> ((\<forall>i. no_answer (b (requests c + i) (localDescription c))) \<longrightarrow>
          answer_loop (ReconnectTimeout w) c = None
          \<and> (exchangeSDP_select (selectErrorFirst w) c0 = Return Offer c \<longrightarrow>
               exchangeSDP w c0 = None))"
proof -
  have 1: "answer_loop (ReconnectTimeout w) c =
          Some (Return answer (c\<lparr>requests := requests c + Suc k,
             calls := calls c @ retries k (localDescription c) (ReconnectTimeout w)
                        @ [Negotiate (localDescription c)],
             answerChannel := Some make_chan\<rparr>))"
    if "\<forall>i<k. no_answer (b (requests c + i) (localDescription c))"
      "b (requests c + k) (localDescription c) = (Some answer, None)"
    using answer_loop_retries [OF assms that] .
  have 2: "exchangeSDP w c0 =
               Some (Return (setRemoteDescription w answer) (c\<lparr>requests := requests c + Suc k,
                  calls := calls c @ retries k (localDescription c) (ReconnectTimeout w)
                        @ [Negotiate (localDescription c), SetRemoteDescription p answer],
                  answerChannel := Some make_chan\<rparr>))"
    if "\<forall>i<k. no_answer (b (requests c + i) (localDescription c))"
      "b (requests c + k) (localDescription c) = (Some answer, None)"
      "exchangeSDP_select (selectErrorFirst w) c0 = Return Offer c"
    using 1 [OF that(1,2)] that(3) assms(2)
    by (simp add: exchangeSDP_def apply_answer_def swap_answerChannel_calls)
  have 3: "answer_loop (ReconnectTimeout w) c = None"
    if "\<forall>i. no_answer (b (requests c + i) (localDescription c))"
    using answer_loop_never [OF assms that] .
  have 4: "exchangeSDP w c0 = None"
    if "\<forall>i. no_answer (b (requests c + i) (localDescription c))"
      "exchangeSDP_select (selectErrorFirst w) c0 = Return Offer c"
    using 3 [OF that(1)] that(2) by (simp add: exchangeSDP_def)
  show ?thesis
    using 1 2 3 4 by blast
qed

theorem broker_failures_are_retried_witness:
  "broker (peer2\<lparr>pc := Some 1, localDescription := Some ''offer''\<rparr>) = Some broker1
   \<and> no_answer (broker1 0 (Some ''offer'')) \<and> no_answer (broker1 1 (Some ''offer''))
   \<and> broker1 2 (Some ''offer'') = (Some ''answer'', None)
   \<and> exchangeSDP (world1\<lparr>setRemoteDescription := \<lambda>answer. None\<rparr>)
        (peer2\<lparr>pc := Some 1, localDescription := Some ''offer'',
               offerChannel := Some \<lparr>ch_queue = [Some ''offer''], ch_closed = False\<rparr>\<rparr>)
      = Some (Return None peer2_turned_down)
   \<and> no_answer ((\<lambda>k offer. (None, None)) (7 :: nat) (Some ''offer''))
   \<and> answer_loop 10 (peer2\<lparr>broker := Some (\<lambda>k offer. (None, None)), pc := Some 1\<rparr>) = None"
proof -
  let ?c = "peer2\<lparr>pc := Some 1, localDescription := Some ''offer''\<rparr>"
  let ?w = "world1\<lparr>setRemoteDescription := \<lambda>answer. None\<rparr>"
  have a: "broker ?c = Some broker1" "pc ?c = Some 1" "answerChannel ?c = Some make_chan"
    "requests ?c = 0" "localDescription ?c = Some ''offer''" "calls ?c = []"
    by (simp_all add: peer2_def NewWebRTCPeer_def)
  have b: "\<forall>i<2. no_answer (broker1 (requests ?c + i) (localDescription ?c))"
    "broker1 (requests ?c + 2) (localDescription ?c) = (Some ''answer'', None)"
    "no_answer (broker1 0 (Some ''offer''))" "no_answer (broker1 1 (Some ''offer''))"
    by (simp_all add: broker1_def no_answer_def peer2_def NewWebRTCPeer_def)
  have s: "exchangeSDP_select (selectErrorFirst ?w) (?c\<lparr>offerChannel := Some \<lparr>ch_queue = [Some ''offer''], ch_closed = False\<rparr>\<rparr>)
     = Return Offer ?c"
    using after_select_peer2 by (simp add: world1_def)
  have e: "exchangeSDP ?w (?c\<lparr>offerChannel := Some \<lparr>ch_queue = [Some ''offer''], ch_closed = False\<rparr>\<rparr>)
      = Some (Return None peer2_turned_down)"
    using broker_failures_are_retried [OF a(1-3), of 2 "''answer''" ?w
        "?c\<lparr>offerChannel := Some \<lparr>ch_queue = [Some ''offer''], ch_closed = False\<rparr>\<rparr>"] b(1,2) s
    by (simp add: a world1_def peer2_turned_down_def peer2_def NewWebRTCPeer_def numeral_2_eq_2)
  let ?d = "peer2\<lparr>broker := Some (\<lambda>k offer. (None, None)), pc := Some 1\<rparr>"
  have d: "broker ?d = Some (\<lambda>k offer. (None, None))" "pc ?d = Some 1" "answerChannel ?d = Some make_chan"
    by (simp_all add: peer2_def NewWebRTCPeer_def)
  have n: "answer_loop 10 ?d = None"
    using broker_failures_are_retried [OF d, of 0 _ world1 ?d] 
    by (simp add: no_answer_def world1_def)
  have b2: "broker1 2 (Some ''offer'') = (Some ''answer'', None)"
    by (simp add: broker1_def)
  show ?thesis using a(1) b(3,4) b2 e n by (simp add: no_answer_def)
qed

subsection \<open>C9: the watchdog\<close>



subsection \<open>C10: Write reports full success in every state\<close>

text \<open>
  C10. For every byte slice \<open>b\<close> and every state of the session, \<open>Write\<close> returns
  \<open>(len(b), nil)\<close>. While there is no data channel the bytes are appended to the buffer
  and nothing else changes; this is so in the state a first \<open>Close\<close> leaves, whether
  that \<open>Close\<close> returned or is held in its reset signal.
\<close>

theorem Write_reports_full_success:
  "fst (Write c b) = (length b, None)
   \<and> (transport c = None \<longrightarrow> snd (Write c b) = c\<lparr>buffer := buffer c @ b\<rparr>)
   \<and> (\<not> closed c0 \<and> state_after (Close c0) = Some c \<longrightarrow>
        closed c \<and> fst (Write c b) = (length b, None)
        \<and> snd (Write c b) = c\<lparr>buffer := buffer c @ b\<rparr>)"
proof -
  have 1: "fst (Write c b) = (length b, None)"
    by (simp add: Write_def split: option.splits)
  have 2: "transport c = None \<Longrightarrow> snd (Write c b) = c\<lparr>buffer := buffer c @ b\<rparr>"
    by (simp add: Write_def)
  show ?thesis
    using 1 2 Close_leaves_closed_no_transport [of c0 c] by simp
qed

theorem Write_reports_full_success_witness:
  "fst (Write peer0 [1, 2]) = (2, None)
   \<and> transport peer0 = None
   \<and> buffer (snd (Write peer0 [1, 2])) = [1, 2]
   \<and> \<not> closed peer0
   \<and> state_after (Close peer0) = Some peer0_closed
   \<and> closed peer0_closed
   \<and> fst (Write peer0_closed [3]) = (1, None)
   \<and> buffer (snd (Write peer0_closed [3])) = [3]"
proof -
  have b: "\<not> closed peer0" "transport peer0 = None" "buffer peer0 = []"
    "buffer peer0_closed = []"
    by (simp_all add: peer0_def peer0_closed_def NewWebRTCPeer_def)
  show ?thesis
    using Write_reports_full_success [of peer0 "[1, 2]"]
      Write_reports_full_success [of peer0_closed "[3]" peer0] Close_peer0 b
    by simp
qed

end
